theory Spec2Isabelle
  imports Main "HOL-Library.AList"
begin

unbundle bit_operations_syntax

section \<open>JavaScript values used by the storage layer\<close>

text \<open>
  A value of type \<open>string | null | undefined\<close> is a \<open>string option\<close>. In a condition
  JavaScript treats \<open>null\<close>, \<open>undefined\<close> and the empty string as false.
\<close>

definition truthy :: "string option \<Rightarrow> bool" where
  "truthy s = (case s of None \<Rightarrow> False | Some x \<Rightarrow> x \<noteq> [])"

text \<open>\<^verbatim>\<open>x || null\<close> on such a value.\<close>

definition orNull :: "string option \<Rightarrow> string option" where
  "orNull s = (if truthy s then s else None)"

text \<open>The decimal digits of a natural number.\<close>

definition digitChar :: "nat \<Rightarrow> char" where
  "digitChar d = ''0123456789'' ! d"

fun decimal :: "nat \<Rightarrow> string" where
  "decimal n = (if n < 10 then [digitChar n] else decimal (n div 10) @ [digitChar (n mod 10)])"

declare decimal.simps [simp del]

text \<open>
  \<^verbatim>\<open>Number.prototype.toString\<close> on a non-negative integer. Below \<open>10\<^sup>2\<^sup>1\<close> it is the
  decimal numeral; from there on JavaScript prints an exponent form (\<^verbatim>\<open>1e+21\<close>), which
  is not modelled: the value is left unspecified. The numbers the storage layer prints
  are the masks \<open>0\<close> and \<open>3145728\<close> and the office ids.
\<close>

definition natToString :: "nat \<Rightarrow> string" where
  "natToString n = (if n < 1000000000000000000000 then decimal n else undefined)"

definition numToString :: "int \<Rightarrow> string" where
  "numToString i = (if i < 0 then CHR ''-'' # natToString (nat (- i)) else natToString (nat i))"

text \<open>
  A JavaScript \<open>Map\<close> keeps its entries in insertion order; \<open>set\<close> on a key already
  present replaces the value in place, \<open>delete\<close> drops the entry. It is an association
  list with these three operations (\<open>AList.update\<close> replaces in place or appends).
\<close>

type_synonym ('k, 'v) jsmap = "('k \<times> 'v) list"

definition jsmap_get :: "('k, 'v) jsmap \<Rightarrow> 'k \<Rightarrow> 'v option" where
  "jsmap_get m k = map_of m k"

definition jsmap_has :: "('k, 'v) jsmap \<Rightarrow> 'k \<Rightarrow> bool" where
  "jsmap_has m k = (map_of m k \<noteq> None)"

definition jsmap_set :: "'k \<Rightarrow> 'v \<Rightarrow> ('k, 'v) jsmap \<Rightarrow> ('k, 'v) jsmap" where
  "jsmap_set k v m = AList.update k v m"

definition jsmap_delete :: "'k \<Rightarrow> ('k, 'v) jsmap \<Rightarrow> ('k, 'v) jsmap" where
  "jsmap_delete k m = AList.delete k m"

definition jsmap_values :: "('k, 'v) jsmap \<Rightarrow> 'v list" where
  "jsmap_values m = map snd m"

section \<open>Data model (shared/schema.ts)\<close>

text \<open>
  Field \<open>id\<close> of the three tables is written \<open>user_id\<close>, \<open>office_id\<close>, \<open>member_id\<close>.
  Identifiers of type \<open>number\<close> are integers, timestamps are natural numbers.
\<close>

record user =
  user_id :: string
  username :: string
  discriminator :: string
  avatar :: "string option"
  isAdmin :: bool
  accessToken :: "string option"
  refreshToken :: "string option"
  tokenExpiry :: "nat option"

text \<open>
  \<open>InsertOffice\<close>: \<open>isPrivate\<close> is optional in the insert schema (the column has a default),
  so it is a \<open>bool option\<close> here and in the stored record; \<open>Some True\<close> is the only truthy
  value.
\<close>

record insert_office =
  name :: string
  description :: "string option"
  isPrivate :: "bool option"
  ownerId :: string

text \<open>
  \<open>Office\<close>, the row type of the table \<open>offices\<close>: the columns \<open>id\<close>, \<open>name\<close>,
  \<open>description\<close>, \<open>is_private\<close>, \<open>owner_id\<close>, \<open>status\<close>, \<open>created_at\<close>. The table has no
  column for a voice channel id.
\<close>

record office_row = insert_office +
  office_id :: int
  status :: string
  createdAt :: nat

text \<open>The object \<open>MemStorage\<close> keeps:
  \<^verbatim>\<open>{...office, id, status, createdAt, voiceChannelId}\<close>.\<close>

record office = office_row +
  voiceChannelId :: "string option"

text \<open>\<open>InsertOfficeMember\<close>; every call site of the repository passes \<open>isOwner\<close>.\<close>

record insert_member =
  officeId :: int
  userId :: string
  isOwner :: bool

record member = insert_member +
  member_id :: int
  joinedAt :: nat

text \<open>The enriched values returned by the storage layer: \<^verbatim>\<open>{...member, user}\<close> and
  \<^verbatim>\<open>{...office, owner, members, memberCount}\<close>. In \<open>MemStorage\<close> the office spread
  is the kept object; in \<open>DatabaseStorage\<close> it is a selected row, so the value has no
  \<open>voiceChannelId\<close>, and its three added fields are written with the prefix \<open>db_\<close>.\<close>

record enriched_member = member +
  user :: user

record enriched_office = office +
  owner :: user
  members :: "enriched_member list"
  memberCount :: nat

record db_enriched_office = office_row +
  db_owner :: user
  db_members :: "enriched_member list"
  db_memberCount :: nat

text \<open>The placeholder substituted for a dangling user reference.\<close>

definition unknownUser :: "string \<Rightarrow> user" where
  "unknownUser i =
     \<lparr>user_id = i, username = ''Unknown'', discriminator = ''0000'', avatar = None,
      isAdmin = False, accessToken = None, refreshToken = None, tokenExpiry = None\<rparr>"

definition orUnknown :: "user option \<Rightarrow> string \<Rightarrow> user" where
  "orUnknown u i = (case u of Some x \<Rightarrow> x | None \<Rightarrow> unknownUser i)"

section \<open>The Discord gateway (server/discord.ts)\<close>

text \<open>
  The sources hold two copies of this module. The one modelled is the copy whose
  \<open>updateChannelPermissions\<close> has default arguments, which the two-argument calls of
  \<open>storage.ts\<close> need; the other copy sends an empty \<open>permission_overwrites\<close> list and
  passes \<open>allow\<close> through unchanged. The module reads \<open>GUILD_ID\<close> once at start-up;
  the storage layer reads \<open>VC_CATEGORY_ID\<close>.
\<close>

record env =
  GUILD_ID :: string
  VC_CATEGORY_ID :: "string option"

record overwrite =
  ow_id :: string
  ow_type :: nat
  ow_allow :: string
  ow_deny :: string

record channel_payload =
  channel_name :: string
  channel_type :: nat
  permission_overwrites :: "overwrite list"
  parent_id :: "string option"

record permission_body =
  allow :: string
  deny :: string
  target_type :: nat

datatype request =
    CreateChannel channel_payload
  | DeleteChannel string
  | PutPermission string string permission_body

text \<open>
  The remote side is an oracle: given the requests sent so far and the next request it
  answers \<open>None\<close> (the response is not ok, the function throws) or \<open>Some i\<close> (ok; \<open>i\<close>
  is the \<open>id\<close> of the returned channel where one is read). Every request attempted is
  appended to the history, whatever the answer.
\<close>

type_synonym gateway = "request list \<Rightarrow> request \<Rightarrow> string option"

definition send :: "gateway \<Rightarrow> request \<Rightarrow> request list \<Rightarrow> string option \<times> request list" where
  "send gw req hist = (gw hist req, hist @ [req])"

text \<open>Permission bits named in the comments of the source.\<close>

definition CONNECT :: nat where
  "CONNECT = push_bit 20 1"

definition SPEAK :: nat where
  "SPEAK = push_bit 21 1"

text \<open>\<open>createVoiceChannel\<close>: the result \<open>None\<close> is the thrown error.\<close>

definition createVoiceChannel ::
  "env \<Rightarrow> gateway \<Rightarrow> string \<Rightarrow> string option \<Rightarrow> request list \<Rightarrow> string option \<times> request list"
where
  "createVoiceChannel e gw nm categoryId hist =
     (let payload =
            \<lparr>channel_name = nm, channel_type = 2,
             permission_overwrites =
               [\<lparr>ow_id = GUILD_ID e, ow_type = 0, ow_allow = ''0'', ow_deny = ''3145728''\<rparr>],
             parent_id = None\<rparr>;
          payload = (if truthy categoryId then payload\<lparr>parent_id := categoryId\<rparr> else payload)
      in send gw (CreateChannel payload) hist)"

definition deleteVoiceChannel ::
  "gateway \<Rightarrow> string \<Rightarrow> request list \<Rightarrow> bool \<times> request list"
where
  "deleteVoiceChannel gw channelId hist =
     (let (r, hist') = send gw (DeleteChannel channelId) hist in (r \<noteq> None, hist'))"

text \<open>
  \<open>updateChannelPermissions(channelId, userId, allow = 0, deny = 0)\<close>; a call with two
  arguments is a call with \<open>allow = 0\<close> and \<open>deny = 0\<close>. \<^verbatim>\<open>allow || defaultAllow\<close>
  takes the default when \<open>allow\<close> is \<open>0\<close>.
\<close>

definition updateChannelPermissions ::
  "gateway \<Rightarrow> string \<Rightarrow> string \<Rightarrow> nat \<Rightarrow> nat \<Rightarrow> request list \<Rightarrow> bool \<times> request list"
where
  "updateChannelPermissions gw channelId uid allow_arg deny_arg hist =
     (let defaultAllow = 3145728;
          finalAllow = (if allow_arg \<noteq> 0 then allow_arg else defaultAllow);
          body = \<lparr>allow = natToString finalAllow, deny = natToString deny_arg, target_type = 1\<rparr>;
          (r, hist') = send gw (PutPermission channelId uid body) hist
      in (r \<noteq> None, hist'))"

section \<open>The in-memory backend (server/storage.ts, class MemStorage)\<close>

record mem_store =
  users :: "(string, user) jsmap"
  offices :: "(int, office) jsmap"
  officeMembers :: "(string, member) jsmap"
  currentOfficeId :: int

text \<open>A store together with the history of gateway requests.\<close>

record 's world =
  store :: 's
  sent :: "request list"

definition mem_init :: mem_store where
  "mem_init = \<lparr>users = [], offices = [], officeMembers = [], currentOfficeId = 1\<rparr>"

text \<open>The key \<^verbatim>\<open>`${officeId}:${userId}`\<close> of \<open>officeMembers\<close>.\<close>

definition memberKey :: "int \<Rightarrow> string \<Rightarrow> string" where
  "memberKey oid uid = numToString oid @ '':'' @ uid"

definition mem_getUserById :: "mem_store \<Rightarrow> string \<Rightarrow> user option" where
  "mem_getUserById s i = jsmap_get (users s) i"

text \<open>\<open>createUser\<close> with the fields the routes pass (\<open>avatar || null\<close>, no tokens).\<close>

definition mem_createUser :: "mem_store \<Rightarrow> user \<Rightarrow> mem_store" where
  "mem_createUser s u =
     (let newUser = u\<lparr>avatar := orNull (avatar u), accessToken := None, refreshToken := None,
                      tokenExpiry := None\<rparr>
      in s\<lparr>users := jsmap_set (user_id newUser) newUser (users s)\<rparr>)"

text \<open>\<open>getOfficeMembers\<close>: an entry whose user is absent is skipped.\<close>

definition mem_getOfficeMembers :: "mem_store \<Rightarrow> int \<Rightarrow> enriched_member list" where
  "mem_getOfficeMembers s oid =
     concat (map (\<lambda>(key, m).
        if officeId m = oid
        then (case jsmap_get (users s) (userId m) of
                Some u \<Rightarrow> [member.extend m (enriched_member.fields u)]
              | None \<Rightarrow> [])
        else []) (officeMembers s))"

text \<open>The enrichment shared by \<open>getAllOffices\<close> and \<open>getOfficeById\<close>; \<open>oid\<close> is the
  id the members are listed for.\<close>

definition mem_enrich :: "mem_store \<Rightarrow> office \<Rightarrow> int \<Rightarrow> enriched_office" where
  "mem_enrich s off oid =
     (let own = jsmap_get (users s) (ownerId off);
          ms = mem_getOfficeMembers s oid
      in office.extend off
           (enriched_office.fields (orUnknown own (ownerId off)) ms (length ms)))"

definition mem_getAllOffices :: "mem_store \<Rightarrow> enriched_office list" where
  "mem_getAllOffices s =
     map (\<lambda>off. mem_enrich s off (office_id off)) (jsmap_values (offices s))"

definition mem_getOfficeById :: "mem_store \<Rightarrow> int \<Rightarrow> enriched_office option" where
  "mem_getOfficeById s i =
     (case jsmap_get (offices s) i of
        None \<Rightarrow> None
      | Some off \<Rightarrow> Some (mem_enrich s off i))"

definition mem_getUserOffice :: "mem_store \<Rightarrow> string \<Rightarrow> enriched_office option" where
  "mem_getUserOffice s uid =
     find (\<lambda>off. ownerId off = uid \<or> list_ex (\<lambda>m. userId m = uid) (members off))
       (mem_getAllOffices s)"

definition mem_getAvailableOffices :: "mem_store \<Rightarrow> string \<Rightarrow> enriched_office list" where
  "mem_getAvailableOffices s uid =
     filter (\<lambda>off. isPrivate off \<noteq> Some True \<or> list_ex (\<lambda>m. userId m = uid) (members off))
       (mem_getAllOffices s)"

definition mem_isOfficeMember :: "mem_store \<Rightarrow> int \<Rightarrow> string \<Rightarrow> bool" where
  "mem_isOfficeMember s oid uid = jsmap_has (officeMembers s) (memberKey oid uid)"

text \<open>\<open>addOfficeMember\<close>; \<open>t\<close> is the instant read by \<^verbatim>\<open>new Date()\<close>. One storage
  call is given one instant: the reads of the clock inside it all return \<open>t\<close>.\<close>

definition mem_addOfficeMember ::
  "gateway \<Rightarrow> nat \<Rightarrow> mem_store world \<Rightarrow> insert_member \<Rightarrow> enriched_member \<times> mem_store world"
where
  "mem_addOfficeMember gw t w m =
     (let newMember = insert_member.extend m (member.fields 0 t);
          s = (store w)\<lparr>officeMembers :=
                 jsmap_set (memberKey (officeId m) (userId m)) newMember (officeMembers (store w))\<rparr>;
          usr = jsmap_get (users s) (userId m);
          enrichedMember =
            member.extend newMember (enriched_member.fields (orUnknown usr (userId m)));
          sent' = (case mem_getOfficeById s (officeId m) of
                     None \<Rightarrow> sent w
                   | Some off \<Rightarrow>
                       if truthy (voiceChannelId off)
                       then snd (updateChannelPermissions gw (the (voiceChannelId off))
                                   (userId m) 0 0 (sent w))
                       else sent w)
      in (enrichedMember, \<lparr>store = s, sent = sent'\<rparr>))"

definition mem_removeOfficeMember ::
  "gateway \<Rightarrow> mem_store world \<Rightarrow> int \<Rightarrow> string \<Rightarrow> mem_store world"
where
  "mem_removeOfficeMember gw w oid uid =
     (let sent' = (case mem_getOfficeById (store w) oid of
                     None \<Rightarrow> sent w
                   | Some off \<Rightarrow>
                       if truthy (voiceChannelId off)
                       then snd (updateChannelPermissions gw (the (voiceChannelId off))
                                   uid 0 3145728 (sent w))
                       else sent w)
      in \<lparr>store = (store w)\<lparr>officeMembers :=
                      jsmap_delete (memberKey oid uid) (officeMembers (store w))\<rparr>,
          sent = sent'\<rparr>)"

text \<open>\<open>createOffice\<close>: the office is stored before the channel is requested, and stored
  again with the channel id when the request succeeds.\<close>

definition mem_createOffice ::
  "env \<Rightarrow> gateway \<Rightarrow> nat \<Rightarrow> mem_store world \<Rightarrow> insert_office
     \<Rightarrow> enriched_office option \<times> mem_store world"
where
  "mem_createOffice e gw t w ins =
     (let i = currentOfficeId (store w);
          newOffice = office_row.extend
                        (insert_office.extend (ins\<lparr>description := orNull (description ins)\<rparr>)
                           (office_row.fields i ''active'' t))
                        (office.fields None);
          s1 = (store w)\<lparr>currentOfficeId := i + 1, offices := jsmap_set i newOffice (offices (store w))\<rparr>;
          (channelId, sent1) =
             createVoiceChannel e gw (''Office-'' @ name newOffice) (VC_CATEGORY_ID e) (sent w);
          s2 = (case channelId of
                  Some c \<Rightarrow> s1\<lparr>offices := jsmap_set i (newOffice\<lparr>voiceChannelId := Some c\<rparr>) (offices s1)\<rparr>
                | None \<Rightarrow> s1);
          (em, w3) = mem_addOfficeMember gw t \<lparr>store = s2, sent = sent1\<rparr>
                       \<lparr>officeId = i, userId = ownerId ins, isOwner = True\<rparr>
      in (mem_getOfficeById (store w3) i, w3))"

text \<open>\<open>deleteOffice\<close>: the members removed are those \<open>getOfficeMembers\<close> lists.\<close>

definition mem_deleteOffice :: "gateway \<Rightarrow> mem_store world \<Rightarrow> int \<Rightarrow> mem_store world" where
  "mem_deleteOffice gw w i =
     (let off = jsmap_get (offices (store w)) i;
          ms = mem_getOfficeMembers (store w) i;
          w1 = fold (\<lambda>m acc. mem_removeOfficeMember gw acc i (userId m)) ms w;
          sent2 = (case off of
                     None \<Rightarrow> sent w1
                   | Some x \<Rightarrow>
                       if truthy (voiceChannelId x)
                       then snd (deleteVoiceChannel gw (the (voiceChannelId x)) (sent w1))
                       else sent w1)
      in \<lparr>store = (store w1)\<lparr>offices := jsmap_delete i (offices (store w1))\<rparr>, sent = sent2\<rparr>)"

section \<open>The database backend (server/storage.ts, class DatabaseStorage)\<close>

text \<open>
  A table is the list of its rows in insertion order; \<^verbatim>\<open>const [x] = await db.select()...\<close>
  takes the first row selected. The columns \<open>id\<close> of \<open>offices\<close> and \<open>office_members\<close> are
  \<open>serial\<close>: each insert takes the next value of a sequence. The schema declares
  \<open>users.id\<close> a primary key and the foreign keys \<open>offices.owner_id\<close>,
  \<open>office_members.office_id\<close>, \<open>office_members.user_id\<close>; it declares no uniqueness of
  \<open>(office_id, user_id)\<close>. A statement violating a constraint throws and leaves the
  tables as they were; the value an insert took from a sequence is not given back.
\<close>

datatype db_error = ForeignKeyViolation | UniqueViolation | NotFound

record db_store =
  users_t :: "user list"
  offices_t :: "office_row list"
  officeMembers_t :: "member list"
  offices_id_seq :: int
  office_members_id_seq :: int

definition db_init :: db_store where
  "db_init = \<lparr>users_t = [], offices_t = [], officeMembers_t = [],
              offices_id_seq = 1, office_members_id_seq = 1\<rparr>"

definition db_getUserById :: "db_store \<Rightarrow> string \<Rightarrow> user option" where
  "db_getUserById s i = find (\<lambda>u. user_id u = i) (users_t s)"

definition db_createUser :: "db_store \<Rightarrow> user \<Rightarrow> (db_error + user) \<times> db_store" where
  "db_createUser s u =
     (let userToInsert = u\<lparr>avatar := orNull (avatar u), accessToken := orNull (accessToken u),
                           refreshToken := orNull (refreshToken u)\<rparr>
      in if db_getUserById s (user_id u) \<noteq> None then (Inl UniqueViolation, s)
         else (Inr userToInsert, s\<lparr>users_t := users_t s @ [userToInsert]\<rparr>))"

definition db_userHasOffice :: "db_store \<Rightarrow> string \<Rightarrow> bool" where
  "db_userHasOffice s uid = (find (\<lambda>x. ownerId x = uid) (offices_t s) \<noteq> None)"

definition db_getOfficeMembers :: "db_store \<Rightarrow> int \<Rightarrow> enriched_member list" where
  "db_getOfficeMembers s oid =
     map (\<lambda>m. member.extend m
                 (enriched_member.fields (orUnknown (db_getUserById s (userId m)) (userId m))))
       (filter (\<lambda>m. officeId m = oid) (officeMembers_t s))"

definition db_enrich :: "db_store \<Rightarrow> office_row \<Rightarrow> int \<Rightarrow> db_enriched_office" where
  "db_enrich s off oid =
     (let own = db_getUserById s (ownerId off);
          ms = db_getOfficeMembers s oid
      in office_row.extend off
           (db_enriched_office.fields (orUnknown own (ownerId off)) ms (length ms)))"

definition db_getAllOffices :: "db_store \<Rightarrow> db_enriched_office list" where
  "db_getAllOffices s = map (\<lambda>off. db_enrich s off (office_id off)) (offices_t s)"

definition db_getOfficeById :: "db_store \<Rightarrow> int \<Rightarrow> db_enriched_office option" where
  "db_getOfficeById s i =
     (case find (\<lambda>x. office_id x = i) (offices_t s) of
        None \<Rightarrow> None
      | Some off \<Rightarrow> Some (db_enrich s off i))"

definition db_getUserOffice :: "db_store \<Rightarrow> string \<Rightarrow> db_enriched_office option" where
  "db_getUserOffice s uid =
     (case find (\<lambda>x. ownerId x = uid) (offices_t s) of
        Some userOffice \<Rightarrow> db_getOfficeById s (office_id userOffice)
      | None \<Rightarrow>
          (case find (\<lambda>m. userId m = uid) (officeMembers_t s) of
             Some officeMember \<Rightarrow> db_getOfficeById s (officeId officeMember)
           | None \<Rightarrow> None))"

definition db_getAvailableOffices :: "db_store \<Rightarrow> string \<Rightarrow> db_enriched_office list" where
  "db_getAvailableOffices s uid =
     (let userOffice = db_getUserOffice s uid;
          availableOffices =
            filter (\<lambda>x. case userOffice of
                           Some uo \<Rightarrow> office_id x \<noteq> office_id uo \<and> isPrivate x = Some False
                         | None \<Rightarrow> isPrivate x = Some False)
              (offices_t s)
      in map (\<lambda>off. db_enrich s off (office_id off)) availableOffices)"

definition db_isOfficeMember :: "db_store \<Rightarrow> int \<Rightarrow> string \<Rightarrow> bool" where
  "db_isOfficeMember s oid uid =
     (find (\<lambda>m. officeId m = oid \<and> userId m = uid) (officeMembers_t s) \<noteq> None)"

text \<open>
  \<^verbatim>\<open>office.voiceChannelId\<close> read from a selected row of \<open>offices\<close>: the table of
  \<open>shared/schema.ts\<close> has no such column and the row no such property, so the value is
  \<open>undefined\<close>, whatever the row.
\<close>

definition row_voiceChannelId :: "office_row \<Rightarrow> string option" where
  "row_voiceChannelId r = None"

text \<open>
  \<^verbatim>\<open>db.update(offices).set({ voiceChannelId: channelId }).where(eq(offices.id, i)).returning()\<close>:
  the key names no column of \<open>offices\<close>, the statement is left with nothing to set and
  throws (\<open>None\<close>), whatever the store; no row is changed.
\<close>

definition db_setVoiceChannelId ::
  "db_store \<Rightarrow> int \<Rightarrow> string \<Rightarrow> (office_row option \<times> db_store) option"
where
  "db_setVoiceChannelId s i c = None"

text \<open>The permission request of \<open>addOfficeMember\<close> (\<open>deny_arg = 0\<close>, two-argument call)
  and of \<open>removeOfficeMember\<close> (\<open>0, 3145728\<close>), sent when the selected office has a
  truthy \<open>voiceChannelId\<close>.\<close>

definition db_syncPermission ::
  "gateway \<Rightarrow> db_store \<Rightarrow> int \<Rightarrow> string \<Rightarrow> nat \<Rightarrow> nat \<Rightarrow> request list \<Rightarrow> request list"
where
  "db_syncPermission gw s oid uid allow_arg deny_arg hist =
     (case find (\<lambda>x. office_id x = oid) (offices_t s) of
        None \<Rightarrow> hist
      | Some off \<Rightarrow>
          if truthy (row_voiceChannelId off)
          then snd (updateChannelPermissions gw (the (row_voiceChannelId off)) uid allow_arg deny_arg hist)
          else hist)"

definition db_addOfficeMember ::
  "gateway \<Rightarrow> nat \<Rightarrow> db_store world \<Rightarrow> insert_member
     \<Rightarrow> (db_error + enriched_member) \<times> db_store world"
where
  "db_addOfficeMember gw t w m =
     (let s = store w in
      if find (\<lambda>x. office_id x = officeId m) (offices_t s) = None
           \<or> db_getUserById s (userId m) = None
      then (Inl ForeignKeyViolation,
            w\<lparr>store := s\<lparr>office_members_id_seq := office_members_id_seq s + 1\<rparr>\<rparr>)
      else
        (let newMember = insert_member.extend m (member.fields (office_members_id_seq s) t);
             s' = s\<lparr>officeMembers_t := officeMembers_t s @ [newMember],
                     office_members_id_seq := office_members_id_seq s + 1\<rparr>;
             hist = db_syncPermission gw s' (officeId m) (userId m) 0 0 (sent w);
             usr = db_getUserById s' (userId m)
         in (Inr (member.extend newMember (enriched_member.fields (orUnknown usr (userId m)))),
             \<lparr>store = s', sent = hist\<rparr>)))"

definition db_removeOfficeMember ::
  "gateway \<Rightarrow> db_store world \<Rightarrow> int \<Rightarrow> string \<Rightarrow> db_store world"
where
  "db_removeOfficeMember gw w oid uid =
     (let hist = db_syncPermission gw (store w) oid uid 0 3145728 (sent w)
      in \<lparr>store = (store w)\<lparr>officeMembers_t :=
                      filter (\<lambda>m. \<not> (officeId m = oid \<and> userId m = uid))
                        (officeMembers_t (store w))\<rparr>,
          sent = hist\<rparr>)"

text \<open>The \<open>catch\<close> block of \<open>createOffice\<close>.\<close>

definition db_createOffice_catch ::
  "gateway \<Rightarrow> nat \<Rightarrow> db_store world \<Rightarrow> office_row
     \<Rightarrow> (db_error + db_enriched_office option) \<times> db_store world"
where
  "db_createOffice_catch gw t w createdOffice =
     (let (r, w') = db_addOfficeMember gw t w
                      \<lparr>officeId = office_id createdOffice, userId = ownerId createdOffice,
                       isOwner = True\<rparr>
      in case r of
           Inl err \<Rightarrow> (Inl err, w')
         | Inr _ \<Rightarrow> (Inr (db_getOfficeById (store w') (office_id createdOffice)), w'))"

text \<open>
  The \<open>try\<close> block of \<open>createOffice\<close>; the result \<open>Inl ()\<close> is an exception thrown
  inside it, which the \<open>catch\<close> block handles. When the channel request succeeds the
  update that should record the channel id throws, so the block always ends in an
  exception: the channel exists at the gateway and the store does not know it.
\<close>

definition db_createOffice_try ::
  "env \<Rightarrow> gateway \<Rightarrow> nat \<Rightarrow> db_store world \<Rightarrow> office_row
     \<Rightarrow> (unit + db_enriched_office option) \<times> db_store world"
where
  "db_createOffice_try e gw t w createdOffice =
     (let (channelId, hist) =
            createVoiceChannel e gw (''Office-'' @ name createdOffice) (VC_CATEGORY_ID e) (sent w)
      in case channelId of
           None \<Rightarrow> (Inl (), w\<lparr>sent := hist\<rparr>)
         | Some c \<Rightarrow>
             (case db_setVoiceChannelId (store w) (office_id createdOffice) c of
                None \<Rightarrow> (Inl (), w\<lparr>sent := hist\<rparr>)
              | Some (None, s2) \<Rightarrow> (Inl (), \<lparr>store = s2, sent = hist\<rparr>)
              | Some (Some updatedOffice, s2) \<Rightarrow>
                  (let (r, w') = db_addOfficeMember gw t \<lparr>store = s2, sent = hist\<rparr>
                                   \<lparr>officeId = office_id updatedOffice,
                                    userId = ownerId updatedOffice, isOwner = True\<rparr>
                   in case r of
                        Inl err \<Rightarrow> (Inl (), w')
                      | Inr _ \<Rightarrow>
                          (Inr (db_getOfficeById (store w') (office_id updatedOffice)), w'))))"

definition db_createOffice ::
  "env \<Rightarrow> gateway \<Rightarrow> nat \<Rightarrow> db_store world \<Rightarrow> insert_office
     \<Rightarrow> (db_error + db_enriched_office option) \<times> db_store world"
where
  "db_createOffice e gw t w ins =
     (let s = store w in
      if db_getUserById s (ownerId ins) = None
      then (Inl ForeignKeyViolation, w\<lparr>store := s\<lparr>offices_id_seq := offices_id_seq s + 1\<rparr>\<rparr>)
      else
        (let createdOffice =
               insert_office.extend
                 (ins\<lparr>description := orNull (description ins),
                      isPrivate := Some (case isPrivate ins of None \<Rightarrow> True | Some b \<Rightarrow> b)\<rparr>)
                 (office_row.fields (offices_id_seq s) ''active'' t);
             s1 = s\<lparr>offices_t := offices_t s @ [createdOffice],
                     offices_id_seq := offices_id_seq s + 1\<rparr>
         in case db_createOffice_try e gw t \<lparr>store = s1, sent = sent w\<rparr> createdOffice of
              (Inl _, w') \<Rightarrow> db_createOffice_catch gw t w' createdOffice
            | (Inr v, w') \<Rightarrow> (Inr v, w')))"

definition db_deleteOffice ::
  "gateway \<Rightarrow> db_store world \<Rightarrow> int \<Rightarrow> (db_error + unit) \<times> db_store world"
where
  "db_deleteOffice gw w i =
     (case find (\<lambda>x. office_id x = i) (offices_t (store w)) of
        None \<Rightarrow> (Inl NotFound, w)
      | Some off \<Rightarrow>
          (let s1 = (store w)\<lparr>officeMembers_t :=
                       filter (\<lambda>m. officeId m \<noteq> i) (officeMembers_t (store w))\<rparr>;
               hist = (if truthy (row_voiceChannelId off)
                       then snd (deleteVoiceChannel gw (the (row_voiceChannelId off)) (sent w))
                       else sent w)
           in if list_ex (\<lambda>m. officeId m = i) (officeMembers_t s1)
              then (Inl ForeignKeyViolation, \<lparr>store = s1, sent = hist\<rparr>)
              else (Inr (),
                    \<lparr>store = s1\<lparr>offices_t := filter (\<lambda>x. office_id x \<noteq> i) (offices_t s1)\<rparr>,
                     sent = hist\<rparr>)))"

section \<open>The HTTP layer (server/routes.ts)\<close>

text \<open>
  \<open>routes.ts\<close> imports the exported \<open>storage\<close>, which is the \<open>DatabaseStorage\<close>
  instance. A handler takes the session's user id, the parsed parameters and the answers
  of the external collaborators, and returns the response with the new world. An
  exception that leaves the handler is the response \<open>Throws\<close>.
\<close>

datatype failure = Db db_error | DiscordError | TypeError

datatype response =
    Message nat string
  | Json nat "db_enriched_office option"
  | End nat
  | Throws failure

fun statusOf :: "response \<Rightarrow> nat" where
  "statusOf (Message c _) = c"
| "statusOf (Json c _) = c"
| "statusOf (End c) = c"
| "statusOf (Throws _) = 500"

record discord_user =
  du_id :: string
  du_username :: string
  du_discriminator :: string
  du_avatar :: "string option"

text \<open>
  The admin check shared by the handlers: \<open>roleCheck uid\<close> is \<open>Some b\<close> when the guild
  member and \<open>ADMIN_ROLE\<close> are both available (\<open>b\<close>: the roles include it), \<open>None\<close>
  when they are not or the lookup throws, which leaves \<open>isAdmin\<close> as it was.
\<close>

definition checkAdminRole :: "(string \<Rightarrow> bool option) \<Rightarrow> user \<Rightarrow> bool \<Rightarrow> bool" where
  "checkAdminRole roleCheck usr skip =
     (if \<not> isAdmin usr \<and> \<not> skip
      then (case roleCheck (user_id usr) of Some b \<Rightarrow> b | None \<Rightarrow> isAdmin usr)
      else isAdmin usr)"

text \<open>\<^verbatim>\<open>const [username, discriminator] = ownerId.split('#')\<close>.\<close>

definition splitHash :: "string \<Rightarrow> string \<times> string" where
  "splitHash x =
     (takeWhile (\<lambda>c. c \<noteq> CHR ''#'') x,
      takeWhile (\<lambda>c. c \<noteq> CHR ''#'') (drop 1 (dropWhile (\<lambda>c. c \<noteq> CHR ''#'') x)))"

text \<open>
  \<open>POST /api/offices\<close>. \<open>body\<close> is the result of \<open>insertOfficeSchema.parse\<close>
  (\<open>None\<close>: a \<open>ZodError\<close>); \<open>guild\<close> is the answer of \<open>fetchGuildMembers\<close>
  (\<open>None\<close>: it throws), each member with its optional \<open>user\<close>.
\<close>

definition route_createOffice ::
  "env \<Rightarrow> gateway \<Rightarrow> nat \<Rightarrow> (string \<Rightarrow> bool option) \<Rightarrow> discord_user option list option
     \<Rightarrow> db_store world \<Rightarrow> string option \<Rightarrow> insert_office option \<Rightarrow> response \<times> db_store world"
where
  "route_createOffice e gw t roleCheck guild w session body =
     (if \<not> truthy session then (Message 401 ''Not authenticated'', w)
      else case db_getUserById (store w) (the session) of
        None \<Rightarrow> (Message 401 ''User not found'', w)
      | Some usr \<Rightarrow>
          if \<not> checkAdminRole roleCheck usr False
          then (Message 403 ''Insufficient permissions'', w)
          else case body of
            None \<Rightarrow> (Message 400 ''Invalid office data'', w)
          | Some officeData \<Rightarrow>
              (let resolved =
                     (if CHR ''#'' \<in> set (ownerId officeData)
                      then
                        (let (uname, discr) = splitHash (ownerId officeData) in
                         case guild of
                           None \<Rightarrow> Inl (Throws DiscordError, w)
                         | Some guildMembers \<Rightarrow>
                             (case find (\<lambda>gm. case gm of
                                                 None \<Rightarrow> False
                                               | Some du \<Rightarrow> du_username du = uname
                                                             \<and> du_discriminator du = discr)
                                     guildMembers of
                                Some (Some du) \<Rightarrow>
                                  (if db_getUserById (store w) (du_id du) = None
                                   then (case db_createUser (store w)
                                                 \<lparr>user_id = du_id du, username = du_username du,
                                                  discriminator = du_discriminator du,
                                                  avatar = du_avatar du, isAdmin = False,
                                                  accessToken = None, refreshToken = None,
                                                  tokenExpiry = None\<rparr> of
                                           (Inl err, s') \<Rightarrow> Inl (Throws (Db err), w\<lparr>store := s'\<rparr>)
                                         | (Inr _, s') \<Rightarrow> Inr (du_id du, w\<lparr>store := s'\<rparr>))
                                   else Inr (du_id du, w))
                              | _ \<Rightarrow> Inl (Message 404 ''Owner not found on Discord server'', w)))
                      else Inr (ownerId officeData, w))
               in case resolved of
                    Inl early \<Rightarrow> early
                  | Inr (oid, w1) \<Rightarrow>
                      (case db_createOffice e gw t w1 (officeData\<lparr>ownerId := oid\<rparr>) of
                         (Inl err, w2) \<Rightarrow> (Throws (Db err), w2)
                       | (Inr None, w2) \<Rightarrow> (Throws TypeError, w2)
                       | (Inr (Some off), w2) \<Rightarrow>
                           (case db_addOfficeMember gw t w2
                                   \<lparr>officeId = office_id off, userId = oid, isOwner = True\<rparr> of
                              (Inl err, w3) \<Rightarrow> (Throws (Db err), w3)
                            | (Inr _, w3) \<Rightarrow> (Json 201 (Some off), w3)))))"

text \<open>
  \<open>DELETE /api/offices/:id/members/:userId\<close>. \<open>idParam\<close> is \<open>parseInt(req.params.id)\<close>
  (\<open>None\<close>: \<open>NaN\<close>), \<open>target\<close> is \<open>req.params.userId\<close>.
\<close>

definition route_removeMember ::
  "gateway \<Rightarrow> (string \<Rightarrow> bool option) \<Rightarrow> db_store world \<Rightarrow> string option \<Rightarrow> int option
     \<Rightarrow> string \<Rightarrow> response \<times> db_store world"
where
  "route_removeMember gw roleCheck w session idParam target =
     (if \<not> truthy session then (Message 401 ''Not authenticated'', w)
      else case idParam of
        None \<Rightarrow> (Message 400 ''Invalid office ID'', w)
      | Some oid \<Rightarrow>
          (case db_getOfficeById (store w) oid of
             None \<Rightarrow> (Message 404 ''Office not found'', w)
           | Some off \<Rightarrow>
               (let isOwnerReq = (ownerId off = the session) in
                case db_getUserById (store w) (the session) of
                  None \<Rightarrow> (Message 401 ''User not found'', w)
                | Some usr \<Rightarrow>
                    if \<not> checkAdminRole roleCheck usr isOwnerReq \<and> \<not> isOwnerReq
                    then (Message 403 ''Insufficient permissions'', w)
                    else if target = [] then (Message 400 ''User ID is required'', w)
                    else if target = ownerId off
                    then (Message 400 ''Cannot remove the office owner'', w)
                    else if \<not> db_isOfficeMember (store w) oid target
                    then (Message 404 ''User is not a member of this office'', w)
                    else (End 204, db_removeOfficeMember gw w oid target))))"

section \<open>Scenarios and the predicates used in the statements\<close>

text \<open>A gateway that accepts every request and one that refuses every request.\<close>

definition gw_up :: gateway where
  "gw_up hist req = Some ''chan1''"

definition gw_down :: gateway where
  "gw_down hist req = None"

definition env0 :: env where
  "env0 = \<lparr>GUILD_ID = ''G'', VC_CATEGORY_ID = None\<rparr>"

definition mkUser :: "string \<Rightarrow> bool \<Rightarrow> user" where
  "mkUser i adm =
     \<lparr>user_id = i, username = i, discriminator = ''0001'', avatar = None, isAdmin = adm,
      accessToken = None, refreshToken = None, tokenExpiry = None\<rparr>"

definition mkOffice :: "string \<Rightarrow> bool \<Rightarrow> string \<Rightarrow> insert_office" where
  "mkOffice nm priv own = \<lparr>name = nm, description = None, isPrivate = Some priv, ownerId = own\<rparr>"

definition mem_world0 :: "mem_store world" where
  "mem_world0 = \<lparr>store = mem_init, sent = []\<rparr>"

definition db_world0 :: "db_store world" where
  "db_world0 = \<lparr>store = db_init, sent = []\<rparr>"

text \<open>The requests a call added to the history.\<close>

definition new_requests :: "'s world \<Rightarrow> 's world \<Rightarrow> request list" where
  "new_requests w w' = drop (length (sent w)) (sent w')"

definition is_create :: "request \<Rightarrow> bool" where
  "is_create r = (case r of CreateChannel _ \<Rightarrow> True | _ \<Rightarrow> False)"

text \<open>A channel-creation request that denies \<open>CONNECT|SPEAK\<close> to the role whose id is
  the guild id (the \<open>@everyone\<close> role) and allows it nothing.\<close>

definition denies_everyone :: "env \<Rightarrow> request \<Rightarrow> bool" where
  "denies_everyone e r =
     (case r of
        CreateChannel p \<Rightarrow>
          list_ex (\<lambda>ov. ow_id ov = GUILD_ID e \<and> ow_type ov = 0 \<and> ow_allow ov = natToString 0
                        \<and> ow_deny ov = natToString (CONNECT OR SPEAK))
            (permission_overwrites p)
      | _ \<Rightarrow> False)"

text \<open>Database worlds: two users (\<open>U1\<close> an admin); then the private office 1 of
  \<open>U1\<close>; then \<open>U2\<close> a member of it; then \<open>U2\<close> made owner of a second, public
  office.\<close>

definition db_users0 :: "db_store world" where
  "db_users0 = db_world0\<lparr>store :=
      snd (db_createUser (snd (db_createUser db_init (mkUser ''U1'' True))) (mkUser ''U2'' False))\<rparr>"

definition db_office1 :: "db_store world" where
  "db_office1 = snd (db_createOffice env0 gw_up 1 db_users0 (mkOffice ''Alpha'' True ''U1''))"

definition db_office1_joined :: "db_store world" where
  "db_office1_joined =
     snd (db_addOfficeMember gw_up 2 db_office1 \<lparr>officeId = 1, userId = ''U2'', isOwner = False\<rparr>)"

definition db_member_then_owner :: "db_store world" where
  "db_member_then_owner =
     snd (db_createOffice env0 gw_up 3 db_office1_joined (mkOffice ''Beta'' False ''U2''))"

text \<open>The same in the in-memory backend; there office 1 has the channel \<open>chan1\<close>.\<close>

definition mem_users0 :: "mem_store world" where
  "mem_users0 = mem_world0\<lparr>store :=
      mem_createUser (mem_createUser mem_init (mkUser ''U1'' True)) (mkUser ''U2'' False)\<rparr>"

definition mem_office1 :: "mem_store world" where
  "mem_office1 = snd (mem_createOffice env0 gw_up 1 mem_users0 (mkOffice ''Alpha'' True ''U1''))"

definition mem_office1_joined :: "mem_store world" where
  "mem_office1_joined =
     snd (mem_addOfficeMember gw_up 2 mem_office1 \<lparr>officeId = 1, userId = ''U2'', isOwner = False\<rparr>)"

definition mem_member_then_owner :: "mem_store world" where
  "mem_member_then_owner =
     snd (mem_createOffice env0 gw_up 3 mem_office1_joined (mkOffice ''Beta'' False ''U2''))"

text \<open>An in-memory world with an office whose owner has no user record.\<close>

definition mem_ghost_office :: "mem_store world" where
  "mem_ghost_office = snd (mem_createOffice env0 gw_up 1 mem_world0 (mkOffice ''Alpha'' True ''ghost''))"

text \<open>Every office id is below the next value of the sequence (so the next insert
  takes a fresh id).\<close>

definition db_ids_fresh :: "db_store \<Rightarrow> bool" where
  "db_ids_fresh s = list_all (\<lambda>x. office_id x < offices_id_seq s) (offices_t s)"

text \<open>The office \<open>createOffice\<close> stores: in \<open>MemStorage\<close> while no channel id is
  known, in \<open>DatabaseStorage\<close> the inserted row.\<close>

definition mem_newOffice :: "mem_store \<Rightarrow> nat \<Rightarrow> insert_office \<Rightarrow> office" where
  "mem_newOffice s t ins =
     \<lparr>name = name ins, description = orNull (description ins), isPrivate = isPrivate ins,
      ownerId = ownerId ins, office_id = currentOfficeId s, status = ''active'', createdAt = t,
      voiceChannelId = None\<rparr>"

definition db_newOffice :: "db_store \<Rightarrow> nat \<Rightarrow> insert_office \<Rightarrow> office_row" where
  "db_newOffice s t ins =
     \<lparr>name = name ins, description = orNull (description ins),
      isPrivate = Some (case isPrivate ins of None \<Rightarrow> True | Some b \<Rightarrow> b),
      ownerId = ownerId ins, office_id = offices_id_seq s, status = ''active'', createdAt = t\<rparr>"

section \<open>Sequences of storage calls\<close>

text \<open>
  A run of the in-memory backend: the calls are applied in order to the store of the
  constructor. The gateway answers from the history, so its answers may change over time.
\<close>

datatype mem_op =
    MCreateUser user
  | MCreateOffice nat insert_office
  | MAddOfficeMember nat insert_member
  | MRemoveOfficeMember int string
  | MDeleteOffice int

fun mem_step :: "env \<Rightarrow> gateway \<Rightarrow> mem_store world \<Rightarrow> mem_op \<Rightarrow> mem_store world" where
  "mem_step e gw w (MCreateUser u) = w\<lparr>store := mem_createUser (store w) u\<rparr>"
| "mem_step e gw w (MCreateOffice t ins) = snd (mem_createOffice e gw t w ins)"
| "mem_step e gw w (MAddOfficeMember t m) = snd (mem_addOfficeMember gw t w m)"
| "mem_step e gw w (MRemoveOfficeMember oid uid) = mem_removeOfficeMember gw w oid uid"
| "mem_step e gw w (MDeleteOffice i) = mem_deleteOffice gw w i"

definition mem_run :: "env \<Rightarrow> gateway \<Rightarrow> mem_op list \<Rightarrow> mem_store world" where
  "mem_run e gw ops = foldl (mem_step e gw) mem_world0 ops"

text \<open>The \<open>(officeId, userId)\<close> pairs of the membership rows, one per row.\<close>

definition mem_pairs :: "mem_store \<Rightarrow> (int \<times> string) list" where
  "mem_pairs s = map (\<lambda>(k, m). (officeId m, userId m)) (officeMembers s)"

text \<open>Every entry of \<open>officeMembers\<close> sits under the key of its own pair, and no key
  occurs twice.\<close>

definition mem_keyed :: "mem_store \<Rightarrow> bool" where
  "mem_keyed s =
     (distinct (map fst (officeMembers s))
      \<and> list_all (\<lambda>(k, m). k = memberKey (officeId m) (userId m)) (officeMembers s))"

text \<open>A run of the database backend, from the empty tables.\<close>

datatype db_op =
    DCreateUser user
  | DCreateOffice nat insert_office
  | DAddOfficeMember nat insert_member
  | DRemoveOfficeMember int string
  | DDeleteOffice int

fun db_step :: "env \<Rightarrow> gateway \<Rightarrow> db_store world \<Rightarrow> db_op \<Rightarrow> db_store world" where
  "db_step e gw w (DCreateUser u) = w\<lparr>store := snd (db_createUser (store w) u)\<rparr>"
| "db_step e gw w (DCreateOffice t ins) = snd (db_createOffice e gw t w ins)"
| "db_step e gw w (DAddOfficeMember t m) = snd (db_addOfficeMember gw t w m)"
| "db_step e gw w (DRemoveOfficeMember oid uid) = db_removeOfficeMember gw w oid uid"
| "db_step e gw w (DDeleteOffice i) = snd (db_deleteOffice gw w i)"

definition db_run :: "env \<Rightarrow> gateway \<Rightarrow> db_op list \<Rightarrow> db_store world" where
  "db_run e gw ops = foldl (db_step e gw) db_world0 ops"

definition db_pairs :: "db_store \<Rightarrow> (int \<times> string) list" where
  "db_pairs s = map (\<lambda>m. (officeId m, userId m)) (officeMembers_t s)"

lemmas js_defs =
  truthy_def orNull_def numToString_def natToString_def decimal.simps digitChar_def
  jsmap_get_def jsmap_has_def jsmap_set_def jsmap_delete_def jsmap_values_def
  unknownUser_def orUnknown_def Let_def
  insert_office.defs office_row.defs office.defs insert_member.defs member.defs
  enriched_member.defs enriched_office.defs db_enriched_office.defs

lemmas discord_defs =
  send_def createVoiceChannel_def deleteVoiceChannel_def updateChannelPermissions_def

lemmas mem_defs =
  mem_init_def memberKey_def mem_getUserById_def mem_createUser_def mem_getOfficeMembers_def
  mem_enrich_def mem_getAllOffices_def mem_getOfficeById_def mem_getUserOffice_def
  mem_getAvailableOffices_def mem_isOfficeMember_def mem_addOfficeMember_def
  mem_removeOfficeMember_def mem_createOffice_def mem_deleteOffice_def

lemmas db_defs =
  db_init_def db_getUserById_def db_createUser_def db_userHasOffice_def db_getOfficeMembers_def
  db_enrich_def db_getAllOffices_def db_getOfficeById_def db_getUserOffice_def
  db_getAvailableOffices_def db_isOfficeMember_def row_voiceChannelId_def
  db_setVoiceChannelId_def db_syncPermission_def db_addOfficeMember_def
  db_removeOfficeMember_def db_createOffice_catch_def db_createOffice_try_def
  db_createOffice_def db_deleteOffice_def

lemmas route_defs =
  checkAdminRole_def splitHash_def route_createOffice_def route_removeMember_def

lemmas run_defs =
  mem_run_def mem_pairs_def mem_keyed_def db_run_def db_pairs_def

lemmas scenario_defs =
  db_users0_def db_office1_def db_office1_joined_def db_member_then_owner_def
  mem_users0_def mem_office1_def
  mem_office1_joined_def mem_member_then_owner_def db_ids_fresh_def
  gw_up_def gw_down_def env0_def mkUser_def mkOffice_def mem_world0_def db_world0_def
  new_requests_def is_create_def denies_everyone_def CONNECT_def SPEAK_def

section \<open>Basic facts about the model\<close>

lemma office_extend_simps [simp]:
  "name (insert_office.extend x ext) = name x"
  "description (insert_office.extend x ext) = description x"
  "isPrivate (insert_office.extend x ext) = isPrivate x"
  "ownerId (insert_office.extend x ext) = ownerId x"
  "office_id (insert_office.extend x (office_row.fields i st t)) = i"
  "status (insert_office.extend x (office_row.fields i st t)) = st"
  "createdAt (insert_office.extend x (office_row.fields i st t)) = t"
  "name (office_row.extend r ext') = name r"
  "description (office_row.extend r ext') = description r"
  "isPrivate (office_row.extend r ext') = isPrivate r"
  "ownerId (office_row.extend r ext') = ownerId r"
  "office_id (office_row.extend r ext') = office_id r"
  "status (office_row.extend r ext') = status r"
  "createdAt (office_row.extend r ext') = createdAt r"
  "voiceChannelId (office_row.extend r (office.fields v)) = v"
  "db_owner (office_row.extend r (db_enriched_office.fields ow ms n)) = ow"
  "db_members (office_row.extend r (db_enriched_office.fields ow ms n)) = ms"
  "db_memberCount (office_row.extend r (db_enriched_office.fields ow ms n)) = n"
  by (simp_all add: insert_office.defs office_row.defs office.defs db_enriched_office.defs)

lemma member_extend_simps [simp]:
  "officeId (insert_member.extend y ext) = officeId y"
  "userId (insert_member.extend y ext) = userId y"
  "isOwner (insert_member.extend y ext) = isOwner y"
  "member_id (insert_member.extend y (member.fields j t)) = j"
  "joinedAt (insert_member.extend y (member.fields j t)) = t"
  by (simp_all add: insert_member.defs member.defs)

lemma enriched_extend_simps [simp]:
  "name (office.extend off ext) = name off"
  "description (office.extend off ext) = description off"
  "isPrivate (office.extend off ext) = isPrivate off"
  "ownerId (office.extend off ext) = ownerId off"
  "office_id (office.extend off ext) = office_id off"
  "status (office.extend off ext) = status off"
  "createdAt (office.extend off ext) = createdAt off"
  "voiceChannelId (office.extend off ext) = voiceChannelId off"
  "owner (office.extend off (enriched_office.fields ow ms n)) = ow"
  "members (office.extend off (enriched_office.fields ow ms n)) = ms"
  "memberCount (office.extend off (enriched_office.fields ow ms n)) = n"
  "officeId (member.extend m ext') = officeId m"
  "userId (member.extend m ext') = userId m"
  "isOwner (member.extend m ext') = isOwner m"
  "member_id (member.extend m ext') = member_id m"
  "joinedAt (member.extend m ext') = joinedAt m"
  "user (member.extend m (enriched_member.fields u)) = u"
  by (simp_all add: office.defs enriched_office.defs member.defs enriched_member.defs)

lemma mem_enrich_fields [simp]:
  "voiceChannelId (mem_enrich s off i) = voiceChannelId off"
  "office_id (mem_enrich s off i) = office_id off"
  "ownerId (mem_enrich s off i) = ownerId off"
  "name (mem_enrich s off i) = name off"
  "description (mem_enrich s off i) = description off"
  "isPrivate (mem_enrich s off i) = isPrivate off"
  "status (mem_enrich s off i) = status off"
  "createdAt (mem_enrich s off i) = createdAt off"
  "owner (mem_enrich s off i) = orUnknown (jsmap_get (users s) (ownerId off)) (ownerId off)"
  "members (mem_enrich s off i) = mem_getOfficeMembers s i"
  "memberCount (mem_enrich s off i) = length (mem_getOfficeMembers s i)"
  by (simp_all add: mem_enrich_def Let_def)

lemma db_enrich_fields [simp]:
  "office_id (db_enrich s off i) = office_id off"
  "ownerId (db_enrich s off i) = ownerId off"
  "name (db_enrich s off i) = name off"
  "description (db_enrich s off i) = description off"
  "isPrivate (db_enrich s off i) = isPrivate off"
  "status (db_enrich s off i) = status off"
  "createdAt (db_enrich s off i) = createdAt off"
  "db_owner (db_enrich s off i) = orUnknown (db_getUserById s (ownerId off)) (ownerId off)"
  "db_members (db_enrich s off i) = db_getOfficeMembers s i"
  "db_memberCount (db_enrich s off i) = length (db_getOfficeMembers s i)"
  by (simp_all add: db_enrich_def Let_def)

lemma jsmap_set_present:
  assumes "jsmap_has al k"
  shows "map fst (jsmap_set k v al) = map fst al"
    and "length (jsmap_set k v al) = length al"
proof -
  from assms have "k \<in> fst ` set al"
    by (simp add: jsmap_has_def map_of_eq_None_iff)
  then show "map fst (jsmap_set k v al) = map fst al"
    by (simp add: jsmap_set_def update_keys)
  then show "length (jsmap_set k v al) = length al"
    using length_map by metis
qed

lemma jsmap_get_set:
  "jsmap_get (jsmap_set k v al) k' = (if k' = k then Some v else jsmap_get al k')"
  by (simp add: jsmap_get_def jsmap_set_def update_conv')

lemma jsmap_has_set: "jsmap_has (jsmap_set k v al) k"
  by (simp add: jsmap_has_def jsmap_set_def update_conv')

lemma set_update_subset: "set (AList.update k v al) \<subseteq> insert (k, v) (set al)"
  by (induction al) auto

lemma find_append_fresh:
  assumes "list_all (\<lambda>x. \<not> P x) xs" and "P y"
  shows "find P (xs @ [y]) = Some y"
  using assms by (induction xs) auto

lemma mem_addOfficeMember_store:
  "officeMembers (store (snd (mem_addOfficeMember gw t w m)))
     = jsmap_set (memberKey (officeId m) (userId m)) (insert_member.extend m (member.fields 0 t))
         (officeMembers (store w))"
  "users (store (snd (mem_addOfficeMember gw t w m))) = users (store w)"
  "offices (store (snd (mem_addOfficeMember gw t w m))) = offices (store w)"
  "currentOfficeId (store (snd (mem_addOfficeMember gw t w m))) = currentOfficeId (store w)"
  by (simp_all add: mem_addOfficeMember_def Let_def)

lemma mem_addOfficeMember_result:
  "officeId (fst (mem_addOfficeMember gw t w m)) = officeId m"
  "userId (fst (mem_addOfficeMember gw t w m)) = userId m"
  "isOwner (fst (mem_addOfficeMember gw t w m)) = isOwner m"
  "member_id (fst (mem_addOfficeMember gw t w m)) = 0"
  "joinedAt (fst (mem_addOfficeMember gw t w m)) = t"
  by (simp_all add: mem_addOfficeMember_def Let_def)

lemma mem_removeOfficeMember_store:
  "officeMembers (store (mem_removeOfficeMember gw w oid uid))
     = jsmap_delete (memberKey oid uid) (officeMembers (store w))"
  "users (store (mem_removeOfficeMember gw w oid uid)) = users (store w)"
  "offices (store (mem_removeOfficeMember gw w oid uid)) = offices (store w)"
  by (simp_all add: mem_removeOfficeMember_def Let_def)

lemma db_addOfficeMember_ok:
  assumes "find (\<lambda>x. office_id x = officeId m) (offices_t (store w)) \<noteq> None"
    and "db_getUserById (store w) (userId m) \<noteq> None"
  shows "officeMembers_t (store (snd (db_addOfficeMember gw t w m)))
           = officeMembers_t (store w)
             @ [\<lparr>officeId = officeId m, userId = userId m, isOwner = isOwner m,
                 member_id = office_members_id_seq (store w), joinedAt = t\<rparr>]"
    and "offices_t (store (snd (db_addOfficeMember gw t w m))) = offices_t (store w)"
    and "users_t (store (snd (db_addOfficeMember gw t w m))) = users_t (store w)"
    and "offices_id_seq (store (snd (db_addOfficeMember gw t w m))) = offices_id_seq (store w)"
    and "\<exists>em. fst (db_addOfficeMember gw t w m) = Inr em"
  using assms
  by (simp_all add: db_addOfficeMember_def Let_def insert_member.defs member.defs)

text \<open>A refused insert changes nothing but the sequence.\<close>

lemma db_addOfficeMember_failed:
  assumes "fst (db_addOfficeMember gw t w m) = Inl err"
  shows "officeMembers_t (store (snd (db_addOfficeMember gw t w m))) = officeMembers_t (store w)"
    and "offices_t (store (snd (db_addOfficeMember gw t w m))) = offices_t (store w)"
    and "users_t (store (snd (db_addOfficeMember gw t w m))) = users_t (store w)"
    and "offices_id_seq (store (snd (db_addOfficeMember gw t w m))) = offices_id_seq (store w)"
    and "sent (snd (db_addOfficeMember gw t w m)) = sent w"
  using assms by (auto simp: db_addOfficeMember_def Let_def split: if_splits)

lemma db_isOfficeMember_iff:
  "db_isOfficeMember s oid uid
     \<longleftrightarrow> (\<exists>m \<in> set (officeMembers_t s). officeId m = oid \<and> userId m = uid)"
  by (auto simp: db_isOfficeMember_def find_None_iff)

section \<open>The owner's membership\<close>

text \<open>In the in-memory backend a second \<open>addOfficeMember\<close> for the owner replaces the row.\<close>

lemma mem_create_then_add_owner_single_row:
  "mem_pairs (store (mem_run env0 gw_up
      [MCreateUser (mkUser ''U1'' True), MCreateOffice 1 (mkOffice ''Alpha'' True ''U1''),
       MAddOfficeMember 2 \<lparr>officeId = 1, userId = ''U1'', isOwner = True\<rparr>]))
     = [(1, ''U1'')]
   \<and> map (\<lambda>(k, m). isOwner m) (officeMembers (store (mem_run env0 gw_up
      [MCreateUser (mkUser ''U1'' True), MCreateOffice 1 (mkOffice ''Alpha'' True ''U1''),
       MAddOfficeMember 2 \<lparr>officeId = 1, userId = ''U1'', isOwner = True\<rparr>])))
     = [True]"
  by (simp add: js_defs discord_defs mem_defs run_defs scenario_defs)

text \<open>
  Claim C1 (the code departs from it). \<open>POST /api/offices\<close> by the admin \<open>U1\<close> for an
  office owned by \<open>U1\<close> answers 201 and leaves two membership rows for office 1, both
  of \<open>U1\<close> with \<open>isOwner = true\<close>: \<open>createOffice\<close> inserts the owner's row and the route
  inserts it again, and the table has no uniqueness constraint on the pair.
\<close>

theorem route_createOffice_two_owner_rows:
  "statusOf (fst (route_createOffice env0 gw_up 1 (\<lambda>u. None) None db_users0 (Some ''U1'')
                    (Some (mkOffice ''Alpha'' True ''U1'')))) = 201
   \<and> map (\<lambda>m. (member_id m, officeId m, userId m, isOwner m))
        (officeMembers_t (store (snd (route_createOffice env0 gw_up 1 (\<lambda>u. None) None db_users0
           (Some ''U1'') (Some (mkOffice ''Alpha'' True ''U1''))))))
     = [(1, 1, ''U1'', True), (2, 1, ''U1'', True)]"
  by (simp add: js_defs discord_defs db_defs route_defs scenario_defs)

section \<open>Uniqueness of memberships\<close>

lemma jsmap_set_keyed:
  assumes "distinct (map fst al)" and "list_all (\<lambda>(k, m). k = f m) al" and "k = f v"
  shows "distinct (map fst (jsmap_set k v al))" and "list_all (\<lambda>(k, m). k = f m) (jsmap_set k v al)"
proof -
  show "distinct (map fst (jsmap_set k v al))"
    using assms(1) by (simp add: jsmap_set_def distinct_update)
  show "list_all (\<lambda>(k, m). k = f m) (jsmap_set k v al)"
    using assms(2,3) set_update_subset [of k v al]
    by (auto simp: jsmap_set_def list_all_iff)
qed

lemma jsmap_delete_keyed:
  assumes "distinct (map fst al)" and "list_all (\<lambda>(k, m). k = f m) al"
  shows "distinct (map fst (jsmap_delete k al))" and "list_all (\<lambda>(k, m). k = f m) (jsmap_delete k al)"
proof -
  show "distinct (map fst (jsmap_delete k al))"
    using assms(1) by (simp add: jsmap_delete_def distinct_delete)
  show "list_all (\<lambda>(k, m). k = f m) (jsmap_delete k al)"
    using assms(2) by (auto simp: jsmap_delete_def AList.delete_eq list_all_iff)
qed

lemma mem_keyed_members:
  assumes "mem_keyed s" and "officeMembers s' = jsmap_set (memberKey (officeId m) (userId m)) m (officeMembers s)"
  shows "mem_keyed s'"
  using assms jsmap_set_keyed [of "officeMembers s" "\<lambda>m. memberKey (officeId m) (userId m)"
      "memberKey (officeId m) (userId m)" m]
  by (simp add: mem_keyed_def)

lemma mem_keyed_delete:
  assumes "mem_keyed s" and "officeMembers s' = jsmap_delete k (officeMembers s)"
  shows "mem_keyed s'"
  using assms jsmap_delete_keyed [of "officeMembers s" "\<lambda>m. memberKey (officeId m) (userId m)" k]
  by (simp add: mem_keyed_def)

lemma mem_addOfficeMember_keyed:
  "mem_keyed (store w) \<Longrightarrow> mem_keyed (store (snd (mem_addOfficeMember gw t w m)))"
  by (rule mem_keyed_members [where m = "insert_member.extend m (member.fields 0 t)"])
     (simp_all add: mem_addOfficeMember_store)

lemma mem_removeOfficeMember_keyed:
  "mem_keyed (store w) \<Longrightarrow> mem_keyed (store (mem_removeOfficeMember gw w oid uid))"
  by (rule mem_keyed_delete) (simp_all add: mem_removeOfficeMember_store)

lemma mem_remove_fold_keyed:
  "mem_keyed (store w) \<Longrightarrow>
   mem_keyed (store (fold (\<lambda>m acc. mem_removeOfficeMember gw acc i (userId m)) ms w))"
  by (induction ms arbitrary: w) (simp_all add: mem_removeOfficeMember_keyed)

lemma mem_deleteOffice_keyed:
  "mem_keyed (store w) \<Longrightarrow> mem_keyed (store (mem_deleteOffice gw w i))"
  using mem_remove_fold_keyed [of w gw i "mem_getOfficeMembers (store w) i"]
  by (simp add: mem_deleteOffice_def Let_def mem_keyed_def)

lemma mem_createOffice_keyed:
  assumes "mem_keyed (store w)"
  shows "mem_keyed (store (snd (mem_createOffice e gw t w ins)))"
proof -
  have "mem_keyed (store x2)"
    if "mem_addOfficeMember gw t \<lparr>store = s2, sent = h\<rparr> m = (x1, x2)"
      and "officeMembers s2 = officeMembers (store w)" for s2 h m x1 x2
  proof -
    from assms that(2) have "mem_keyed (store \<lparr>store = s2, sent = h\<rparr>)"
      by (simp add: mem_keyed_def)
    from mem_addOfficeMember_keyed [OF this, of gw t m] that(1) show ?thesis by simp
  qed
  then show ?thesis
    by (simp add: mem_createOffice_def Let_def split: prod.splits option.splits)
qed

lemma mem_step_keyed: "mem_keyed (store w) \<Longrightarrow> mem_keyed (store (mem_step e gw w op))"
  by (cases op)
     (simp_all add: mem_createOffice_keyed mem_addOfficeMember_keyed mem_removeOfficeMember_keyed
        mem_deleteOffice_keyed, simp add: mem_keyed_def mem_createUser_def Let_def)

lemma mem_run_keyed: "mem_keyed (store (mem_run e gw ops))"
proof (induction ops rule: rev_induct)
  case Nil
  show ?case by (simp add: mem_run_def mem_world0_def mem_init_def mem_keyed_def)
next
  case (snoc op ops)
  then show ?case by (simp add: mem_run_def mem_step_keyed)
qed

lemma mem_keyed_unique:
  assumes "mem_keyed s"
  shows "distinct (mem_pairs s)"
proof -
  let ?f = "\<lambda>(k :: string, m :: member). (officeId m, userId m)"
  from assms have d: "distinct (map fst (officeMembers s))"
    and k: "\<And>e. e \<in> set (officeMembers s) \<Longrightarrow> fst e = memberKey (fst (?f e)) (snd (?f e))"
    by (auto simp: mem_keyed_def list_all_iff)
  have "inj_on ?f (set (officeMembers s))"
  proof (rule inj_onI)
    fix a b assume a: "a \<in> set (officeMembers s)" and b: "b \<in> set (officeMembers s)"
      and eq: "?f a = ?f b"
    from k [OF a] k [OF b] eq have "fst a = fst b" by simp
    with d a b show "a = b"
      by (meson distinct_map inj_onD)
  qed
  moreover from d have "distinct (officeMembers s)"
    by (simp add: distinct_map)
  ultimately show ?thesis
    by (simp add: mem_pairs_def distinct_map)
qed

text \<open>
  In the in-memory backend the map is keyed by the pair, so after any sequence of calls
  no \<open>(officeId, userId)\<close> pair has two membership rows.
\<close>

lemma mem_run_pairs_unique: "distinct (mem_pairs (store (mem_run e gw ops)))"
  by (rule mem_keyed_unique [OF mem_run_keyed])

text \<open>
  Claim C2 (the code departs from it). In the database backend, after \<open>createUser\<close>
  for \<open>U1\<close> and \<open>createOffice\<close> for owner \<open>U1\<close>, the call \<open>addOfficeMember(1, U1)\<close>
  inserts a second row for the pair \<open>(1, U1)\<close>: \<open>addOfficeMember\<close> inserts without
  looking for an existing row and the table declares no uniqueness of the pair.
\<close>

theorem db_addOfficeMember_duplicates_pair:
  "db_pairs (store (db_run env0 gw_up
      [DCreateUser (mkUser ''U1'' True), DCreateOffice 1 (mkOffice ''Alpha'' True ''U1''),
       DAddOfficeMember 2 \<lparr>officeId = 1, userId = ''U1'', isOwner = False\<rparr>]))
     = [(1, ''U1''), (1, ''U1'')]
   \<and> \<not> distinct (db_pairs (store (db_run env0 gw_up
      [DCreateUser (mkUser ''U1'' True), DCreateOffice 1 (mkOffice ''Alpha'' True ''U1''),
       DAddOfficeMember 2 \<lparr>officeId = 1, userId = ''U1'', isOwner = False\<rparr>])))"
  by (simp add: js_defs discord_defs db_defs run_defs scenario_defs)

section \<open>Deleting an office\<close>

text \<open>The database backend deletes the rows of an office by \<open>office_id\<close>.\<close>

lemma db_deleteOffice_no_rows:
  assumes "fst (db_deleteOffice gw w i) = Inr ()"
  shows "db_getOfficeMembers (store (snd (db_deleteOffice gw w i))) i = []"
    and "db_getOfficeById (store (snd (db_deleteOffice gw w i))) i = None"
proof -
  from assms obtain off where off: "find (\<lambda>x. office_id x = i) (offices_t (store w)) = Some off"
    by (cases "find (\<lambda>x. office_id x = i) (offices_t (store w))") (simp_all add: db_deleteOffice_def)
  have none: "\<not> list_ex (\<lambda>m. officeId m = i) (filter (\<lambda>m. officeId m \<noteq> i) ms)" for ms :: "member list"
    by (simp add: list_ex_iff)
  show "db_getOfficeMembers (store (snd (db_deleteOffice gw w i))) i = []"
    using off none
    by (simp add: db_deleteOffice_def db_getOfficeMembers_def Let_def filter_empty_conv)
  have gone: "find (\<lambda>x. office_id x = i) (filter (\<lambda>x. office_id x \<noteq> i) xs) = None"
    for xs :: "office_row list"
    by (simp add: find_None_iff)
  show "db_getOfficeById (store (snd (db_deleteOffice gw w i))) i = None"
    using off none
    by (simp add: db_deleteOffice_def db_getOfficeById_def Let_def gone)
qed

text \<open>
  Claim C3 (the code departs from it). In the in-memory backend, office 1 is owned by
  \<open>ghost\<close>, who has no user record. After \<open>deleteOffice(1)\<close> the office is gone and the
  listing of its members is empty, but the membership row \<open>1:ghost\<close> is still stored
  and \<open>isOfficeMember(1, ghost)\<close> is true: \<open>deleteOffice\<close> removes only the members that
  \<open>getOfficeMembers\<close> lists, and that listing skips rows without a user record.
\<close>

theorem mem_deleteOffice_leaves_row:
  "mem_getOfficeMembers (store (mem_deleteOffice gw_up mem_ghost_office 1)) 1 = []
   \<and> mem_getOfficeById (store (mem_deleteOffice gw_up mem_ghost_office 1)) 1 = None
   \<and> mem_isOfficeMember (store (mem_deleteOffice gw_up mem_ghost_office 1)) 1 ''ghost''
   \<and> officeMembers (store (mem_deleteOffice gw_up mem_ghost_office 1))
        = [(''1:ghost'', \<lparr>officeId = 1, userId = ''ghost'', isOwner = True, member_id = 0, joinedAt = 1\<rparr>)]"
  by (simp add: js_defs discord_defs mem_defs scenario_defs mem_ghost_office_def)

section \<open>Removing the owner\<close>

text \<open>
  Claim C4. A \<open>DELETE /api/offices/:id/members/:userId\<close> request whose \<open>userId\<close> is the
  owner of the existing office \<open>id\<close> is answered with status 400, 401 or 403, never 204,
  and leaves the world (store and gateway history) as it was. When the requester is
  authenticated and is an admin or the owner, the answer is 400 \<open>Cannot remove the
  office owner\<close>.
\<close>

theorem owner_removal_rejected:
  assumes "db_getOfficeById (store w) oid = Some off"
  shows "statusOf (fst (route_removeMember gw rc w session (Some oid) (ownerId off))) \<in> {400, 401, 403}
       \<and> snd (route_removeMember gw rc w session (Some oid) (ownerId off)) = w
       \<and> (truthy session \<and> ownerId off \<noteq> []
            \<and> (\<exists>usr. db_getUserById (store w) (the session) = Some usr
                     \<and> (isAdmin usr \<or> ownerId off = the session))
          \<longrightarrow> fst (route_removeMember gw rc w session (Some oid) (ownerId off))
                = Message 400 ''Cannot remove the office owner'')"
  using assms
  by (auto simp: route_removeMember_def checkAdminRole_def Let_def split: option.splits)

theorem owner_removal_rejected_witness:
  "db_getOfficeById (store db_office1_joined) 1 \<noteq> None
   \<and> route_removeMember gw_up (\<lambda>u. None) db_office1_joined (Some ''U2'') (Some 1) ''U1''
       = (Message 403 ''Insufficient permissions'', db_office1_joined)
   \<and> route_removeMember gw_up (\<lambda>u. None) db_office1_joined (Some ''U1'') (Some 1) ''U1''
       = (Message 400 ''Cannot remove the office owner'', db_office1_joined)"
proof -
  obtain off where h: "db_getOfficeById (store db_office1_joined) 1 = Some off"
    and own: "ownerId off = ''U1''"
    by (simp add: js_defs discord_defs db_defs scenario_defs)
  have u1: "db_getUserById (store db_office1_joined) ''U1'' = Some (mkUser ''U1'' True)"
    by (simp add: js_defs discord_defs db_defs scenario_defs)
  have u2: "db_getUserById (store db_office1_joined) ''U2'' = Some (mkUser ''U2'' False)"
    by (simp add: js_defs discord_defs db_defs scenario_defs)
  have no: "route_removeMember gw_up (\<lambda>u. None) db_office1_joined (Some ''U2'') (Some 1) ''U1''
       = (Message 403 ''Insufficient permissions'', db_office1_joined)"
    using h own u2 by (simp add: route_defs truthy_def mkUser_def)
  from owner_removal_rejected [OF h, of gw_up "\<lambda>u. None" "Some ''U1''"] h own u1 no
  show ?thesis
    by (cases "route_removeMember gw_up (\<lambda>u. None) db_office1_joined (Some ''U1'') (Some 1) ''U1''")
       (simp add: truthy_def mkUser_def)
qed

section \<open>Permission revocation\<close>

text \<open>
  The database backend sends no permission request at all: the office row it selects
  has no \<open>voiceChannelId\<close>.
\<close>

lemma db_syncPermission_silent: "db_syncPermission gw s oid uid a d hist = hist"
  by (simp add: db_syncPermission_def row_voiceChannelId_def truthy_def split: option.splits)

lemma db_removeOfficeMember_silent: "sent (db_removeOfficeMember gw w oid uid) = sent w"
  by (simp add: db_removeOfficeMember_def db_syncPermission_silent Let_def)

lemma db_addOfficeMember_silent: "sent (snd (db_addOfficeMember gw t w m)) = sent w"
  by (simp add: db_addOfficeMember_def db_syncPermission_silent Let_def)

text \<open>
  Claim C5 (the code departs from it). In the in-memory backend, removing \<open>U2\<close> from
  office 1, which has channel \<open>chan1\<close>, sends one permission request; its \<open>deny\<close> is
  \<open>3145728\<close>, and its \<open>allow\<close> is \<open>3145728\<close> too, not \<open>0\<close>: the argument \<open>0\<close> is
  replaced by the default in \<open>updateChannelPermissions\<close>.
\<close>

theorem revoke_request_allows_connect_speak:
  "voiceChannelId (the (jsmap_get (offices (store mem_office1_joined)) 1)) = Some ''chan1''
   \<and> mem_isOfficeMember (store mem_office1_joined) 1 ''U2''
   \<and> new_requests mem_office1_joined (mem_removeOfficeMember gw_up mem_office1_joined 1 ''U2'')
     = [PutPermission ''chan1'' ''U2'' \<lparr>allow = ''3145728'', deny = ''3145728'', target_type = 1\<rparr>]"
  by (simp add: js_defs discord_defs mem_defs scenario_defs)

section \<open>Channel creation\<close>

lemma createVoiceChannel_sent:
  "\<exists>r. snd (createVoiceChannel e gw nm cat hist) = hist @ [r] \<and> denies_everyone e r \<and> is_create r"
  by (simp add: createVoiceChannel_def send_def denies_everyone_def is_create_def Let_def
      CONNECT_def SPEAK_def natToString_def decimal.simps digitChar_def)

lemma updateChannelPermissions_sent:
  "\<exists>r. snd (updateChannelPermissions gw c u a d hist) = hist @ [r] \<and> \<not> is_create r"
  by (simp add: updateChannelPermissions_def send_def is_create_def Let_def)

lemma deleteVoiceChannel_sent:
  "\<exists>r. snd (deleteVoiceChannel gw c hist) = hist @ [r] \<and> \<not> is_create r"
  by (simp add: deleteVoiceChannel_def send_def is_create_def Let_def)

text \<open>
  In the database backend the \<open>try\<close> block of \<open>createOffice\<close> always ends in an
  exception, after the channel request: \<open>createOffice\<close> is the insert, the channel
  request and the \<open>catch\<close> block.
\<close>

lemma db_createOffice_try_throws:
  "db_createOffice_try e gw t w off
     = (Inl (), w\<lparr>sent := snd (createVoiceChannel e gw (''Office-'' @ name off)
                                   (VC_CATEGORY_ID e) (sent w))\<rparr>)"
  by (simp add: db_createOffice_try_def db_setVoiceChannelId_def split: prod.splits option.splits)

lemma db_createOffice_known_owner:
  assumes "db_getUserById (store w) (ownerId ins) \<noteq> None"
  shows "db_createOffice e gw t w ins
     = db_createOffice_catch gw t
         \<lparr>store = (store w)\<lparr>offices_t := offices_t (store w) @ [db_newOffice (store w) t ins],
                            offices_id_seq := offices_id_seq (store w) + 1\<rparr>,
          sent = snd (createVoiceChannel e gw (''Office-'' @ name ins) (VC_CATEGORY_ID e) (sent w))\<rparr>
         (db_newOffice (store w) t ins)"
proof -
  from assms obtain usr where usr: "db_getUserById (store w) (ownerId ins) = Some usr"
    by auto
  have off: "insert_office.extend
                 (ins\<lparr>description := orNull (description ins),
                      isPrivate := Some (case isPrivate ins of None \<Rightarrow> True | Some b \<Rightarrow> b)\<rparr>)
                 (office_row.fields (offices_id_seq (store w)) ''active'' t)
               = db_newOffice (store w) t ins"
    by (simp add: db_newOffice_def insert_office.defs office_row.defs)
  have nm: "name (db_newOffice (store w) t ins) = name ins"
    by (simp add: db_newOffice_def)
  show ?thesis
    using usr by (simp add: db_createOffice_def Let_def off db_createOffice_try_throws nm)
qed

lemma db_createOffice_catch_silent:
  "sent (snd (db_createOffice_catch gw t w off)) = sent w"
  using db_addOfficeMember_silent
          [of gw t w "\<lparr>officeId = office_id off, userId = ownerId off, isOwner = True\<rparr>"]
  by (auto simp: db_createOffice_catch_def split: prod.splits sum.splits)

lemma db_createOffice_sent:
  assumes "db_getUserById (store w) (ownerId ins) \<noteq> None"
  shows "\<exists>r rest. sent (snd (db_createOffice e gw t w ins)) = sent w @ r # rest
           \<and> denies_everyone e r \<and> list_all (\<lambda>x. \<not> is_create x) rest"
proof -
  obtain r where r: "snd (createVoiceChannel e gw (''Office-'' @ name ins) (VC_CATEGORY_ID e) (sent w))
                       = sent w @ [r]"
    and d: "denies_everyone e r"
    using createVoiceChannel_sent [of e gw "''Office-'' @ name ins" "VC_CATEGORY_ID e" "sent w"]
    by blast
  have "sent (snd (db_createOffice e gw t w ins)) = sent w @ r # []"
    using r by (simp add: db_createOffice_known_owner [OF assms] db_createOffice_catch_silent)
  with d show ?thesis by (intro exI [of _ r] exI [of _ "[]"]) simp
qed

lemma mem_addOfficeMember_sent:
  "\<exists>rest. sent (snd (mem_addOfficeMember gw t w m)) = sent w @ rest
      \<and> list_all (\<lambda>x. \<not> is_create x) rest"
proof -
  have "\<exists>rest. snd (updateChannelPermissions gw c u a d (sent w)) = sent w @ rest
      \<and> list_all (\<lambda>x. \<not> is_create x) rest" for c u a d
    using updateChannelPermissions_sent [of gw c u a d "sent w"] by auto
  then show ?thesis
    by (simp add: mem_addOfficeMember_def Let_def split: option.splits)
qed

lemma mem_createOffice_sent:
  "\<exists>r rest. sent (snd (mem_createOffice e gw t w ins)) = sent w @ r # rest
      \<and> denies_everyone e r \<and> list_all (\<lambda>x. \<not> is_create x) rest"
proof -
  obtain ch r where cv:
      "createVoiceChannel e gw (''Office-'' @ name ins) (VC_CATEGORY_ID e) (sent w) = (ch, sent w @ [r])"
    and d: "denies_everyone e r"
    using createVoiceChannel_sent [of e gw "''Office-'' @ name ins" "VC_CATEGORY_ID e" "sent w"]
    by (cases "createVoiceChannel e gw (''Office-'' @ name ins) (VC_CATEGORY_ID e) (sent w)") auto
  let ?good = "\<lambda>w' :: mem_store world. \<exists>r rest. sent w' = sent w @ r # rest
                 \<and> denies_everyone e r \<and> list_all (\<lambda>x. \<not> is_create x) rest"
  have add: "?good x2"
    if "mem_addOfficeMember gw t \<lparr>store = s2, sent = sent w @ [r]\<rparr> m = (x1, x2)" for s2 m x1 x2
  proof -
    obtain rest where "sent (snd (mem_addOfficeMember gw t \<lparr>store = s2, sent = sent w @ [r]\<rparr> m))
         = sent \<lparr>store = s2, sent = sent w @ [r]\<rparr> @ rest" "list_all (\<lambda>x. \<not> is_create x) rest"
      using mem_addOfficeMember_sent by blast
    with d that have "sent x2 = sent w @ r # rest \<and> denies_everyone e r
         \<and> list_all (\<lambda>x. \<not> is_create x) rest"
      by simp
    then show ?thesis by blast
  qed
  show ?thesis
    using cv add
    by (simp add: mem_createOffice_def Let_def split: prod.splits)
qed

lemma everyone_denied_value:
  "denies_everyone e r \<longleftrightarrow>
     (\<exists>p. r = CreateChannel p \<and> (\<exists>ov \<in> set (permission_overwrites p).
         ow_id ov = GUILD_ID e \<and> ow_type ov = 0 \<and> ow_allow ov = ''0'' \<and> ow_deny ov = ''3145728''))"
  by (cases r) (simp_all add: denies_everyone_def list_ex_iff CONNECT_def SPEAK_def
        natToString_def decimal.simps digitChar_def)

text \<open>
  Claim C6. Every channel-creation request built by \<open>createVoiceChannel\<close> carries a
  permission overwrite for the role whose id is \<open>GUILD_ID\<close> (the \<open>@everyone\<close> role) with
  \<open>allow = 0\<close> and \<open>deny = CONNECT|SPEAK = 3145728\<close>; \<open>createOffice\<close> of either backend
  sends exactly one channel-creation request, and it is such a request (in the database
  backend once the insert of the office has passed its foreign key).
\<close>

theorem createOffice_channel_denies_everyone:
  "(\<exists>r. snd (createVoiceChannel e gw nm cat hist) = hist @ [r] \<and> denies_everyone e r)
   \<and> (\<exists>r rest. sent (snd (mem_createOffice e gw t mw ins)) = sent mw @ r # rest
          \<and> denies_everyone e r \<and> list_all (\<lambda>x. \<not> is_create x) rest)
   \<and> (db_getUserById (store dw) (ownerId ins) \<noteq> None \<longrightarrow>
        (\<exists>r rest. sent (snd (db_createOffice e gw t dw ins)) = sent dw @ r # rest
          \<and> denies_everyone e r \<and> list_all (\<lambda>x. \<not> is_create x) rest))"
  using createVoiceChannel_sent [of e gw nm cat hist] mem_createOffice_sent [of e gw t mw ins]
    db_createOffice_sent [of dw ins e gw t]
  by blast

theorem createOffice_channel_denies_everyone_witness:
  "db_getUserById (store db_users0) (ownerId (mkOffice ''Alpha'' True ''U1'')) \<noteq> None
   \<and> (\<exists>r rest. sent (snd (db_createOffice env0 gw_up 1 db_users0 (mkOffice ''Alpha'' True ''U1'')))
          = sent db_users0 @ r # rest
          \<and> denies_everyone env0 r \<and> list_all (\<lambda>x. \<not> is_create x) rest)"
proof -
  have h: "db_getUserById (store db_users0) (ownerId (mkOffice ''Alpha'' True ''U1'')) \<noteq> None"
    by (simp add: db_users0_def js_defs db_defs scenario_defs)
  from createOffice_channel_denies_everyone [of env0 gw_up "[]" None "[]" 1 mem_world0
      "mkOffice ''Alpha'' True ''U1''" db_users0] h
  show ?thesis by blast
qed

section \<open>Creating an office while the gateway fails\<close>

lemma mem_createOffice_refused:
  assumes "fst (createVoiceChannel e gw (''Office-'' @ name ins) (VC_CATEGORY_ID e) (sent w)) = None"
  shows "jsmap_get (offices (store (snd (mem_createOffice e gw t w ins)))) (currentOfficeId (store w))
           = Some (mem_newOffice (store w) t ins)"
    and "fst (mem_createOffice e gw t w ins)
           = Some (mem_enrich (store (snd (mem_createOffice e gw t w ins)))
                     (mem_newOffice (store w) t ins) (currentOfficeId (store w)))"
    and "jsmap_get (officeMembers (store (snd (mem_createOffice e gw t w ins))))
             (memberKey (currentOfficeId (store w)) (ownerId ins))
           = Some \<lparr>officeId = currentOfficeId (store w), userId = ownerId ins, isOwner = True,
                   member_id = 0, joinedAt = t\<rparr>"
proof -
  define i where "i = currentOfficeId (store w)"
  define off where "off = mem_newOffice (store w) t ins"
  obtain h where cv: "createVoiceChannel e gw (''Office-'' @ name ins) (VC_CATEGORY_ID e) (sent w) = (None, h)"
    using assms
    by (cases "createVoiceChannel e gw (''Office-'' @ name ins) (VC_CATEGORY_ID e) (sent w)") auto
  have off: "office_row.extend
                (insert_office.extend (ins\<lparr>description := orNull (description ins)\<rparr>)
                   (office_row.fields i ''active'' t))
                (office.fields None) = off"
    by (simp add: off_def i_def mem_newOffice_def insert_office.defs office_row.defs office.defs)
  have eq: "mem_createOffice e gw t w ins =
     (let w3 = snd (mem_addOfficeMember gw t
            \<lparr>store = (store w)\<lparr>currentOfficeId := i + 1, offices := jsmap_set i off (offices (store w))\<rparr>,
             sent = h\<rparr> \<lparr>officeId = i, userId = ownerId ins, isOwner = True\<rparr>)
      in (mem_getOfficeById (store w3) i, w3))"
    using cv off by (simp add: mem_createOffice_def Let_def i_def split: prod.splits)
  show 1: "jsmap_get (offices (store (snd (mem_createOffice e gw t w ins)))) (currentOfficeId (store w))
           = Some (mem_newOffice (store w) t ins)"
    unfolding i_def [symmetric] off_def [symmetric]
    by (simp add: eq Let_def mem_addOfficeMember_store jsmap_get_set)
  show "fst (mem_createOffice e gw t w ins)
           = Some (mem_enrich (store (snd (mem_createOffice e gw t w ins)))
                     (mem_newOffice (store w) t ins) (currentOfficeId (store w)))"
    using 1 unfolding i_def [symmetric] off_def [symmetric]
    by (simp add: eq Let_def mem_getOfficeById_def)
  show "jsmap_get (officeMembers (store (snd (mem_createOffice e gw t w ins))))
             (memberKey (currentOfficeId (store w)) (ownerId ins))
           = Some \<lparr>officeId = currentOfficeId (store w), userId = ownerId ins, isOwner = True,
                   member_id = 0, joinedAt = t\<rparr>"
    unfolding i_def [symmetric]
    by (simp add: eq Let_def mem_addOfficeMember_store jsmap_get_set insert_member.defs member.defs)
qed

text \<open>The rows and users after \<open>createOffice\<close>, whatever the gateway answers, and
  the listing of the new office when no earlier row refers to its id.\<close>

lemma mem_createOffice_store:
  "officeMembers (store (snd (mem_createOffice e gw t w ins)))
     = jsmap_set (memberKey (currentOfficeId (store w)) (ownerId ins))
         \<lparr>officeId = currentOfficeId (store w), userId = ownerId ins, isOwner = True,
          member_id = 0, joinedAt = t\<rparr>
         (officeMembers (store w))"
  "users (store (snd (mem_createOffice e gw t w ins))) = users (store w)"
  by (simp_all add: mem_createOffice_def Let_def split_beta mem_addOfficeMember_store
        insert_member.defs member.defs split: option.splits)

lemma concat_other_office:
  assumes "list_all (\<lambda>(k, m). officeId m \<noteq> i) ms"
  shows "concat (map (\<lambda>(key, m). if officeId m = i then f m else []) ms) = []"
  using assms by (induction ms) auto

lemma concat_update_office:
  assumes "list_all (\<lambda>(k, m). officeId m \<noteq> i) ms" and "officeId row = i"
  shows "concat (map (\<lambda>(key, m). if officeId m = i then f m else []) (AList.update k row ms))
           = f row"
  using assms by (induction ms) (auto simp: concat_other_office)

lemma mem_createOffice_members:
  assumes "list_all (\<lambda>(k, m). officeId m \<noteq> currentOfficeId (store w)) (officeMembers (store w))"
  shows "mem_getOfficeMembers (store (snd (mem_createOffice e gw t w ins))) (currentOfficeId (store w))
     = (case map_of (users (store w)) (ownerId ins) of
          Some u \<Rightarrow> [\<lparr>officeId = currentOfficeId (store w), userId = ownerId ins, isOwner = True,
                      member_id = 0, joinedAt = t, user = u\<rparr>]
        | None \<Rightarrow> [])"
proof -
  let ?row = "\<lparr>officeId = currentOfficeId (store w), userId = ownerId ins, isOwner = True,
               member_id = 0, joinedAt = t\<rparr>"
  let ?f = "\<lambda>m. case map_of (users (store w)) (userId m) of
                   Some u \<Rightarrow> [member.extend m (enriched_member.fields u)]
                 | None \<Rightarrow> []"
  have "officeId ?row = currentOfficeId (store w)" by simp
  note upd = concat_update_office [OF assms this, of ?f]
  have "mem_getOfficeMembers (store (snd (mem_createOffice e gw t w ins))) (currentOfficeId (store w))
          = ?f ?row"
    unfolding mem_getOfficeMembers_def mem_createOffice_store jsmap_set_def jsmap_get_def
    by (rule upd)
  then show ?thesis
    by (simp add: member.defs enriched_member.defs split: option.splits)
qed

lemma db_createOffice_stored:
  assumes "db_getUserById (store w) (ownerId ins) \<noteq> None"
    and "db_ids_fresh (store w)"
  shows "find (\<lambda>x. office_id x = offices_id_seq (store w))
             (offices_t (store (snd (db_createOffice e gw t w ins))))
           = Some (db_newOffice (store w) t ins)"
    and "fst (db_createOffice e gw t w ins)
           = Inr (Some (db_enrich (store (snd (db_createOffice e gw t w ins)))
                     (db_newOffice (store w) t ins) (offices_id_seq (store w))))"
    and "officeMembers_t (store (snd (db_createOffice e gw t w ins)))
           = officeMembers_t (store w)
             @ [\<lparr>officeId = offices_id_seq (store w), userId = ownerId ins, isOwner = True,
                 member_id = office_members_id_seq (store w), joinedAt = t\<rparr>]"
    and "users_t (store (snd (db_createOffice e gw t w ins))) = users_t (store w)"
proof -
  define i where "i = offices_id_seq (store w)"
  define off where "off = db_newOffice (store w) t ins"
  define s1 where "s1 = (store w)\<lparr>offices_t := offices_t (store w) @ [off], offices_id_seq := i + 1\<rparr>"
  define h where "h = snd (createVoiceChannel e gw (''Office-'' @ name ins) (VC_CATEGORY_ID e) (sent w))"
  have offi: "office_id off = i" "ownerId off = ownerId ins" "name off = name ins"
    by (simp_all add: off_def i_def db_newOffice_def)
  have eq: "db_createOffice e gw t w ins = db_createOffice_catch gw t \<lparr>store = s1, sent = h\<rparr> off"
    unfolding s1_def h_def off_def i_def by (rule db_createOffice_known_owner [OF assms(1)])
  have fresh: "list_all (\<lambda>x. \<not> office_id x = i) (offices_t (store w))"
    using assms(2) by (auto simp: db_ids_fresh_def i_def list_all_iff)
  have found: "find (\<lambda>x. office_id x = i) (offices_t s1) = Some off"
    using find_append_fresh [OF fresh, of off] offi by (simp add: s1_def)
  have usr1: "db_getUserById s1 (ownerId ins) \<noteq> None"
    using assms(1) by (simp add: s1_def db_getUserById_def)
  let ?w1 = "\<lparr>store = s1, sent = h\<rparr>"
  let ?m = "\<lparr>officeId = office_id off, userId = ownerId off, isOwner = True\<rparr>"
  have pre: "find (\<lambda>x. office_id x = officeId ?m) (offices_t (store ?w1)) \<noteq> None"
       "db_getUserById (store ?w1) (userId ?m) \<noteq> None"
    using found usr1 offi by simp_all
  note add = db_addOfficeMember_ok [OF pre, of gw t]
  obtain em where em: "fst (db_addOfficeMember gw t ?w1 ?m) = Inr em"
    using add(5) by blast
  have eq2: "db_createOffice e gw t w ins
      = (Inr (db_getOfficeById (store (snd (db_addOfficeMember gw t ?w1 ?m))) i),
         snd (db_addOfficeMember gw t ?w1 ?m))"
    using em offi by (auto simp: eq db_createOffice_catch_def split: prod.splits)
  show 1: "find (\<lambda>x. office_id x = offices_id_seq (store w))
             (offices_t (store (snd (db_createOffice e gw t w ins))))
           = Some (db_newOffice (store w) t ins)"
    unfolding i_def [symmetric] off_def [symmetric]
    using found by (simp add: eq2 add(2))
  show "fst (db_createOffice e gw t w ins)
           = Inr (Some (db_enrich (store (snd (db_createOffice e gw t w ins)))
                     (db_newOffice (store w) t ins) (offices_id_seq (store w))))"
    using 1 unfolding i_def [symmetric] off_def [symmetric]
    by (simp add: eq2 db_getOfficeById_def)
  show "officeMembers_t (store (snd (db_createOffice e gw t w ins)))
           = officeMembers_t (store w)
             @ [\<lparr>officeId = offices_id_seq (store w), userId = ownerId ins, isOwner = True,
                 member_id = office_members_id_seq (store w), joinedAt = t\<rparr>]"
    unfolding i_def [symmetric]
    using add(1) offi by (simp add: eq2 s1_def)
  show "users_t (store (snd (db_createOffice e gw t w ins))) = users_t (store w)"
    using add(3) by (simp add: eq2 s1_def)
qed

lemma db_createOffice_members:
  assumes "find (\<lambda>u. user_id u = ownerId ins) (users_t (store w)) = Some usr"
    and "db_ids_fresh (store w)"
    and "list_all (\<lambda>m. officeId m \<noteq> offices_id_seq (store w)) (officeMembers_t (store w))"
  shows "db_getOfficeMembers (store (snd (db_createOffice e gw t w ins))) (offices_id_seq (store w))
     = [\<lparr>officeId = offices_id_seq (store w), userId = ownerId ins, isOwner = True,
         member_id = office_members_id_seq (store w), joinedAt = t, user = usr\<rparr>]"
proof -
  from assms(1) have own: "db_getUserById (store w) (ownerId ins) \<noteq> None"
    by (simp add: db_getUserById_def)
  note st = db_createOffice_stored [OF own assms(2), of e gw t]
  from assms(3) have none: "filter (\<lambda>m. officeId m = offices_id_seq (store w)) (officeMembers_t (store w)) = []"
    by (auto simp: filter_empty_conv list_all_iff)
  show ?thesis
    using assms(1) none
    by (simp add: db_getOfficeMembers_def st(3) st(4) db_getUserById_def orUnknown_def
          member.defs enriched_member.defs)
qed

text \<open>Office ids stay below the sequence after every sequence of storage calls.\<close>

lemma db_ids_fresh_iff:
  "db_ids_fresh s \<longleftrightarrow> (\<forall>x \<in> set (offices_t s). office_id x < offices_id_seq s)"
  by (simp add: db_ids_fresh_def list_all_iff)

lemma db_addOfficeMember_offices:
  "offices_t (store (snd (db_addOfficeMember gw t w m))) = offices_t (store w)"
  "offices_id_seq (store (snd (db_addOfficeMember gw t w m))) = offices_id_seq (store w)"
  by (simp_all add: db_addOfficeMember_def Let_def)

lemma db_createOffice_catch_offices:
  "offices_t (store (snd (db_createOffice_catch gw t w off))) = offices_t (store w)"
  "offices_id_seq (store (snd (db_createOffice_catch gw t w off))) = offices_id_seq (store w)"
  using db_addOfficeMember_offices
          [of gw t w "\<lparr>officeId = office_id off, userId = ownerId off, isOwner = True\<rparr>"]
  by (auto simp: db_createOffice_catch_def split: prod.splits sum.splits)

lemma db_createOffice_ids_fresh:
  assumes "db_ids_fresh (store w)"
  shows "db_ids_fresh (store (snd (db_createOffice e gw t w ins)))"
proof (cases "db_getUserById (store w) (ownerId ins)")
  case None
  with assms show ?thesis by (auto simp: db_createOffice_def db_ids_fresh_iff Let_def)
next
  case (Some usr)
  then have "db_getUserById (store w) (ownerId ins) \<noteq> None" by simp
  from db_createOffice_known_owner [OF this, of e gw t] assms show ?thesis
    by (auto simp: db_ids_fresh_iff db_createOffice_catch_offices db_newOffice_def)
qed

lemma db_step_ids_fresh:
  "db_ids_fresh (store w) \<Longrightarrow> db_ids_fresh (store (db_step e gw w op))"
proof (cases op)
  case (DCreateOffice t ins)
  assume "db_ids_fresh (store w)"
  with DCreateOffice show ?thesis by (simp add: db_createOffice_ids_fresh)
qed (auto simp: db_ids_fresh_iff db_createUser_def db_addOfficeMember_offices
       db_removeOfficeMember_def db_deleteOffice_def Let_def split: option.splits)

lemma db_run_ids_fresh: "db_ids_fresh (store (db_run e gw ops))"
proof (induction ops rule: rev_induct)
  case Nil
  show ?case by (simp add: db_run_def db_world0_def db_init_def db_ids_fresh_def)
next
  case (snoc op ops)
  then show ?case by (simp add: db_run_def db_step_ids_fresh)
qed

text \<open>
  Claim C7. When the channel-creation call of \<open>createOffice\<close> throws, \<open>createOffice\<close>
  still returns the enriched office. Its own fields are those of the request with the
  new id, \<open>status = active\<close> and the instant of the call; \<open>voiceChannelId\<close> is \<open>null\<close> (in
  the database backend the value has no such property); \<open>owner\<close> is the owner's user
  record (in the in-memory backend the \<open>Unknown\<close> placeholder when there is none);
  \<open>memberCount\<close> is the length of \<open>members\<close>; and when no earlier membership row refers
  to the new id, \<open>members\<close> is the owner's row alone, with \<open>isOwner = true\<close> and the
  owner's user record (in the in-memory backend it is empty when the owner has no user
  record). The office record is stored under the new id and the owner's membership row
  is stored. In the database backend this is for an owner who has a user record (the
  foreign key of the insert) and a store whose office ids are below the sequence.
\<close>

theorem createOffice_survives_channel_failure:
  "(fst (createVoiceChannel e gw (''Office-'' @ name ins) (VC_CATEGORY_ID e) (sent mw)) = None \<longrightarrow>
      (\<exists>v. fst (mem_createOffice e gw t mw ins) = Some v \<and> voiceChannelId v = None
            \<and> office_id v = currentOfficeId (store mw) \<and> ownerId v = ownerId ins
            \<and> name v = name ins \<and> description v = orNull (description ins)
            \<and> isPrivate v = isPrivate ins \<and> status v = ''active'' \<and> createdAt v = t
            \<and> owner v = (case map_of (users (store mw)) (ownerId ins) of
                           Some u \<Rightarrow> u
                         | None \<Rightarrow> \<lparr>user_id = ownerId ins, username = ''Unknown'',
                                     discriminator = ''0000'', avatar = None, isAdmin = False,
                                     accessToken = None, refreshToken = None, tokenExpiry = None\<rparr>)
            \<and> memberCount v = length (members v)
            \<and> (list_all (\<lambda>(k, m). officeId m \<noteq> currentOfficeId (store mw))
                  (officeMembers (store mw)) \<longrightarrow>
                 members v = (case map_of (users (store mw)) (ownerId ins) of
                                Some u \<Rightarrow> [\<lparr>officeId = currentOfficeId (store mw),
                                            userId = ownerId ins, isOwner = True, member_id = 0,
                                            joinedAt = t, user = u\<rparr>]
                              | None \<Rightarrow> [])))
      \<and> jsmap_get (offices (store (snd (mem_createOffice e gw t mw ins)))) (currentOfficeId (store mw))
           = Some (mem_newOffice (store mw) t ins)
      \<and> mem_isOfficeMember (store (snd (mem_createOffice e gw t mw ins)))
           (currentOfficeId (store mw)) (ownerId ins)
      \<and> jsmap_get (officeMembers (store (snd (mem_createOffice e gw t mw ins))))
             (memberKey (currentOfficeId (store mw)) (ownerId ins))
           = Some \<lparr>officeId = currentOfficeId (store mw), userId = ownerId ins, isOwner = True,
                   member_id = 0, joinedAt = t\<rparr>)
   \<and> (fst (createVoiceChannel e gw (''Office-'' @ name ins) (VC_CATEGORY_ID e) (sent dw)) = None
        \<and> db_getUserById (store dw) (ownerId ins) \<noteq> None \<and> db_ids_fresh (store dw) \<longrightarrow>
      (\<exists>v. fst (db_createOffice e gw t dw ins) = Inr (Some v)
            \<and> office_id v = offices_id_seq (store dw) \<and> ownerId v = ownerId ins
            \<and> name v = name ins \<and> description v = orNull (description ins)
            \<and> isPrivate v = Some (case isPrivate ins of None \<Rightarrow> True | Some b \<Rightarrow> b)
            \<and> status v = ''active'' \<and> createdAt v = t
            \<and> find (\<lambda>u. user_id u = ownerId ins) (users_t (store dw)) = Some (db_owner v)
            \<and> db_memberCount v = length (db_members v)
            \<and> (list_all (\<lambda>m. officeId m \<noteq> offices_id_seq (store dw))
                  (officeMembers_t (store dw)) \<longrightarrow>
                 db_members v = [\<lparr>officeId = offices_id_seq (store dw), userId = ownerId ins,
                                  isOwner = True, member_id = office_members_id_seq (store dw),
                                  joinedAt = t, user = db_owner v\<rparr>]))
      \<and> find (\<lambda>x. office_id x = offices_id_seq (store dw))
             (offices_t (store (snd (db_createOffice e gw t dw ins))))
           = Some (db_newOffice (store dw) t ins)
      \<and> db_isOfficeMember (store (snd (db_createOffice e gw t dw ins)))
           (offices_id_seq (store dw)) (ownerId ins)
      \<and> officeMembers_t (store (snd (db_createOffice e gw t dw ins)))
           = officeMembers_t (store dw)
             @ [\<lparr>officeId = offices_id_seq (store dw), userId = ownerId ins, isOwner = True,
                 member_id = office_members_id_seq (store dw), joinedAt = t\<rparr>])"
proof (intro conjI impI)
  assume a: "fst (createVoiceChannel e gw (''Office-'' @ name ins) (VC_CATEGORY_ID e) (sent mw)) = None"
  note m = mem_createOffice_refused [OF a, of t]
  let ?v = "mem_enrich (store (snd (mem_createOffice e gw t mw ins)))
              (mem_newOffice (store mw) t ins) (currentOfficeId (store mw))"
  have own: "owner ?v = (case map_of (users (store mw)) (ownerId ins) of
                           Some u \<Rightarrow> u
                         | None \<Rightarrow> \<lparr>user_id = ownerId ins, username = ''Unknown'',
                                     discriminator = ''0000'', avatar = None, isAdmin = False,
                                     accessToken = None, refreshToken = None, tokenExpiry = None\<rparr>)"
    by (simp add: mem_createOffice_store(2) mem_newOffice_def jsmap_get_def orUnknown_def
          unknownUser_def split: option.splits)
  have flds: "voiceChannelId ?v = None" "office_id ?v = currentOfficeId (store mw)"
      "ownerId ?v = ownerId ins" "name ?v = name ins" "description ?v = orNull (description ins)"
      "isPrivate ?v = isPrivate ins" "status ?v = ''active''" "createdAt ?v = t"
      "memberCount ?v = length (members ?v)"
    by (simp_all add: mem_newOffice_def)
  have mem: "members ?v = (case map_of (users (store mw)) (ownerId ins) of
                                Some u \<Rightarrow> [\<lparr>officeId = currentOfficeId (store mw),
                                            userId = ownerId ins, isOwner = True, member_id = 0,
                                            joinedAt = t, user = u\<rparr>]
                              | None \<Rightarrow> [])"
    if "list_all (\<lambda>(k, m). officeId m \<noteq> currentOfficeId (store mw)) (officeMembers (store mw))"
    using mem_createOffice_members [OF that, of e gw t ins] by simp
  show "\<exists>v. fst (mem_createOffice e gw t mw ins) = Some v \<and> voiceChannelId v = None
            \<and> office_id v = currentOfficeId (store mw) \<and> ownerId v = ownerId ins
            \<and> name v = name ins \<and> description v = orNull (description ins)
            \<and> isPrivate v = isPrivate ins \<and> status v = ''active'' \<and> createdAt v = t
            \<and> owner v = (case map_of (users (store mw)) (ownerId ins) of
                           Some u \<Rightarrow> u
                         | None \<Rightarrow> \<lparr>user_id = ownerId ins, username = ''Unknown'',
                                     discriminator = ''0000'', avatar = None, isAdmin = False,
                                     accessToken = None, refreshToken = None, tokenExpiry = None\<rparr>)
            \<and> memberCount v = length (members v)
            \<and> (list_all (\<lambda>(k, m). officeId m \<noteq> currentOfficeId (store mw))
                  (officeMembers (store mw)) \<longrightarrow>
                 members v = (case map_of (users (store mw)) (ownerId ins) of
                                Some u \<Rightarrow> [\<lparr>officeId = currentOfficeId (store mw),
                                            userId = ownerId ins, isOwner = True, member_id = 0,
                                            joinedAt = t, user = u\<rparr>]
                              | None \<Rightarrow> []))"
    using m(2) own flds mem by (intro exI [of _ ?v] conjI impI)
  show "jsmap_get (offices (store (snd (mem_createOffice e gw t mw ins)))) (currentOfficeId (store mw))
           = Some (mem_newOffice (store mw) t ins)"
    by (rule m(1))
  show "mem_isOfficeMember (store (snd (mem_createOffice e gw t mw ins)))
           (currentOfficeId (store mw)) (ownerId ins)"
    using m(3) by (simp add: mem_isOfficeMember_def jsmap_has_def jsmap_get_def)
  show "jsmap_get (officeMembers (store (snd (mem_createOffice e gw t mw ins))))
             (memberKey (currentOfficeId (store mw)) (ownerId ins))
           = Some \<lparr>officeId = currentOfficeId (store mw), userId = ownerId ins, isOwner = True,
                   member_id = 0, joinedAt = t\<rparr>"
    by (rule m(3))
next
  assume a: "fst (createVoiceChannel e gw (''Office-'' @ name ins) (VC_CATEGORY_ID e) (sent dw)) = None
        \<and> db_getUserById (store dw) (ownerId ins) \<noteq> None \<and> db_ids_fresh (store dw)"
  then have a2: "db_getUserById (store dw) (ownerId ins) \<noteq> None" and a3: "db_ids_fresh (store dw)"
    by simp_all
  note d = db_createOffice_stored [OF a2 a3, of e gw t]
  from a2 obtain usr where usr: "find (\<lambda>u. user_id u = ownerId ins) (users_t (store dw)) = Some usr"
    by (auto simp: db_getUserById_def)
  let ?v = "db_enrich (store (snd (db_createOffice e gw t dw ins)))
              (db_newOffice (store dw) t ins) (offices_id_seq (store dw))"
  have own: "db_owner ?v = usr"
    using usr by (simp add: d(4) db_newOffice_def db_getUserById_def orUnknown_def)
  have flds: "office_id ?v = offices_id_seq (store dw)"
      "ownerId ?v = ownerId ins" "name ?v = name ins" "description ?v = orNull (description ins)"
      "isPrivate ?v = Some (case isPrivate ins of None \<Rightarrow> True | Some b \<Rightarrow> b)"
      "status ?v = ''active''" "createdAt ?v = t"
      "db_memberCount ?v = length (db_members ?v)"
    by (simp_all add: db_newOffice_def)
  have mem: "db_members ?v = [\<lparr>officeId = offices_id_seq (store dw), userId = ownerId ins,
                                  isOwner = True, member_id = office_members_id_seq (store dw),
                                  joinedAt = t, user = db_owner ?v\<rparr>]"
    if "list_all (\<lambda>m. officeId m \<noteq> offices_id_seq (store dw)) (officeMembers_t (store dw))"
    using db_createOffice_members [OF usr a3 that, of e gw t] own by simp
  show "\<exists>v. fst (db_createOffice e gw t dw ins) = Inr (Some v)
            \<and> office_id v = offices_id_seq (store dw) \<and> ownerId v = ownerId ins
            \<and> name v = name ins \<and> description v = orNull (description ins)
            \<and> isPrivate v = Some (case isPrivate ins of None \<Rightarrow> True | Some b \<Rightarrow> b)
            \<and> status v = ''active'' \<and> createdAt v = t
            \<and> find (\<lambda>u. user_id u = ownerId ins) (users_t (store dw)) = Some (db_owner v)
            \<and> db_memberCount v = length (db_members v)
            \<and> (list_all (\<lambda>m. officeId m \<noteq> offices_id_seq (store dw))
                  (officeMembers_t (store dw)) \<longrightarrow>
                 db_members v = [\<lparr>officeId = offices_id_seq (store dw), userId = ownerId ins,
                                  isOwner = True, member_id = office_members_id_seq (store dw),
                                  joinedAt = t, user = db_owner v\<rparr>])"
    using d(2) usr own flds mem by (intro exI [of _ ?v] conjI impI) simp_all
  show "find (\<lambda>x. office_id x = offices_id_seq (store dw))
             (offices_t (store (snd (db_createOffice e gw t dw ins))))
           = Some (db_newOffice (store dw) t ins)"
    by (rule d(1))
  show "db_isOfficeMember (store (snd (db_createOffice e gw t dw ins)))
           (offices_id_seq (store dw)) (ownerId ins)"
    unfolding db_isOfficeMember_iff d(3)
    by (rule bexI [of _ "\<lparr>officeId = offices_id_seq (store dw), userId = ownerId ins, isOwner = True,
                 member_id = office_members_id_seq (store dw), joinedAt = t\<rparr>"]) simp_all
  show "officeMembers_t (store (snd (db_createOffice e gw t dw ins)))
           = officeMembers_t (store dw)
             @ [\<lparr>officeId = offices_id_seq (store dw), userId = ownerId ins, isOwner = True,
                 member_id = office_members_id_seq (store dw), joinedAt = t\<rparr>]"
    by (rule d(3))
qed

theorem createOffice_survives_channel_failure_witness:
  "fst (createVoiceChannel env0 gw_down (''Office-'' @ name (mkOffice ''Alpha'' True ''U1''))
          (VC_CATEGORY_ID env0) (sent mem_users0)) = None
   \<and> fst (createVoiceChannel env0 gw_down (''Office-'' @ name (mkOffice ''Alpha'' True ''U1''))
          (VC_CATEGORY_ID env0) (sent db_users0)) = None
   \<and> db_getUserById (store db_users0) (ownerId (mkOffice ''Alpha'' True ''U1'')) \<noteq> None
   \<and> db_ids_fresh (store db_users0)
   \<and> officeMembers (store mem_users0) = [] \<and> officeMembers_t (store db_users0) = []
   \<and> mem_isOfficeMember (store (snd (mem_createOffice env0 gw_down 1 mem_users0
         (mkOffice ''Alpha'' True ''U1'')))) 1 ''U1''
   \<and> db_isOfficeMember (store (snd (db_createOffice env0 gw_down 1 db_users0
         (mkOffice ''Alpha'' True ''U1'')))) 1 ''U1''
   \<and> (\<exists>v. fst (mem_createOffice env0 gw_down 1 mem_users0 (mkOffice ''Alpha'' True ''U1''))
            = Some v \<and> voiceChannelId v = None \<and> owner v = mkUser ''U1'' True
          \<and> memberCount v = 1
          \<and> members v = [\<lparr>officeId = 1, userId = ''U1'', isOwner = True, member_id = 0,
                           joinedAt = 1, user = mkUser ''U1'' True\<rparr>])
   \<and> (\<exists>v. fst (db_createOffice env0 gw_down 1 db_users0 (mkOffice ''Alpha'' True ''U1''))
            = Inr (Some v) \<and> db_owner v = mkUser ''U1'' True
          \<and> db_memberCount v = 1
          \<and> db_members v = [\<lparr>officeId = 1, userId = ''U1'', isOwner = True, member_id = 1,
                              joinedAt = 1, user = mkUser ''U1'' True\<rparr>])"
proof -
  have h1: "fst (createVoiceChannel env0 gw_down (''Office-'' @ name (mkOffice ''Alpha'' True ''U1''))
          (VC_CATEGORY_ID env0) (sent mem_users0)) = None"
    by (simp add: js_defs discord_defs scenario_defs)
  have h2: "fst (createVoiceChannel env0 gw_down (''Office-'' @ name (mkOffice ''Alpha'' True ''U1''))
          (VC_CATEGORY_ID env0) (sent db_users0)) = None"
    by (simp add: js_defs discord_defs scenario_defs)
  have h3: "db_getUserById (store db_users0) (ownerId (mkOffice ''Alpha'' True ''U1'')) \<noteq> None"
    by (simp add: js_defs db_defs scenario_defs)
  have h4: "db_ids_fresh (store db_users0)"
    by (simp add: js_defs db_defs scenario_defs db_ids_fresh_def)
  have h5: "officeMembers (store mem_users0) = []" "officeMembers_t (store db_users0) = []"
    by (simp_all add: js_defs db_defs mem_defs scenario_defs)
  have i1: "currentOfficeId (store mem_users0) = 1" "offices_id_seq (store db_users0) = 1"
      "office_members_id_seq (store db_users0) = 1"
      "ownerId (mkOffice ''Alpha'' True ''U1'') = ''U1''"
    by (simp_all add: js_defs db_defs mem_defs scenario_defs)
  have u1: "map_of (users (store mem_users0)) ''U1'' = Some (mkUser ''U1'' True)"
      "find (\<lambda>u. user_id u = ''U1'') (users_t (store db_users0)) = Some (mkUser ''U1'' True)"
    by (simp_all add: js_defs db_defs mem_defs scenario_defs)
  from createOffice_survives_channel_failure [of env0 gw_down "mkOffice ''Alpha'' True ''U1''"
      mem_users0 1 db_users0] h1 h2 h3 h4 h5 i1 u1
  show ?thesis by auto
qed

section \<open>Available offices\<close>

text \<open>
  What each backend lists. The in-memory backend lists a private office only to a
  user with a membership row in it, and to a user who has a user record it lists
  exactly the offices that are not private or in which the user holds a membership
  row. The database backend lists public offices only, and lists every public office
  other than the one \<open>getUserOffice\<close> returns.
\<close>

lemma mem_listed_iff:
  "list_ex (\<lambda>m. userId m = uid) (mem_getOfficeMembers s oid)
     \<longleftrightarrow> (\<exists>(k, m) \<in> set (officeMembers s). officeId m = oid \<and> userId m = uid
                                              \<and> jsmap_get (users s) uid \<noteq> None)"
proof -
  have "list_ex (\<lambda>m. userId m = uid)
          (concat (map (\<lambda>(key, m).
             if officeId m = oid
             then (case jsmap_get us (userId m) of
                     Some u \<Rightarrow> [member.extend m (enriched_member.fields u)]
                   | None \<Rightarrow> [])
             else []) ms))
        \<longleftrightarrow> (\<exists>(k, m) \<in> set ms. officeId m = oid \<and> userId m = uid \<and> jsmap_get us uid \<noteq> None)"
    for us :: "(string, user) jsmap" and ms :: "(string, member) jsmap"
    by (induction ms) (auto split: option.splits if_splits)
  then show ?thesis
    by (simp add: mem_getOfficeMembers_def)
qed

lemma mem_getAllOffices_members:
  "v \<in> set (mem_getAllOffices s) \<Longrightarrow> members v = mem_getOfficeMembers s (office_id v)"
  by (auto simp: mem_getAllOffices_def)

lemma mem_getAvailableOffices_private:
  assumes "v \<in> set (mem_getAvailableOffices s uid)" and "isPrivate v = Some True"
  shows "\<exists>(k, m) \<in> set (officeMembers s). officeId m = office_id v \<and> userId m = uid"
proof -
  from assms have "v \<in> set (mem_getAllOffices s)" "list_ex (\<lambda>m. userId m = uid) (members v)"
    by (auto simp: mem_getAvailableOffices_def)
  then have "list_ex (\<lambda>m. userId m = uid) (mem_getOfficeMembers s (office_id v))"
    by (simp add: mem_getAllOffices_members)
  then show ?thesis
    unfolding mem_listed_iff by blast
qed

lemma mem_getAvailableOffices_exact:
  assumes "jsmap_get (users s) uid \<noteq> None"
  shows "mem_getAvailableOffices s uid
           = filter (\<lambda>v. isPrivate v \<noteq> Some True
                       \<or> (\<exists>(k, m) \<in> set (officeMembers s). officeId m = office_id v \<and> userId m = uid))
               (mem_getAllOffices s)"
  unfolding mem_getAvailableOffices_def
proof (rule filter_cong [OF refl])
  fix v assume v: "v \<in> set (mem_getAllOffices s)"
  show "(isPrivate v \<noteq> Some True \<or> list_ex (\<lambda>m. userId m = uid) (members v))
      = (isPrivate v \<noteq> Some True
           \<or> (\<exists>(k, m) \<in> set (officeMembers s). officeId m = office_id v \<and> userId m = uid))"
    using assms by (simp add: mem_getAllOffices_members [OF v] mem_listed_iff)
qed

lemma db_getAvailableOffices_public:
  "v \<in> set (db_getAvailableOffices s uid) \<Longrightarrow> isPrivate v = Some False"
  by (auto simp: db_getAvailableOffices_def Let_def split: option.splits)

lemma db_getAvailableOffices_complete:
  assumes "x \<in> set (offices_t s)" and "isPrivate x = Some False"
    and "\<And>uo. db_getUserOffice s uid = Some uo \<Longrightarrow> office_id x \<noteq> office_id uo"
  shows "db_enrich s x (office_id x) \<in> set (db_getAvailableOffices s uid)"
  using assms by (auto simp: db_getAvailableOffices_def Let_def split: option.splits)

text \<open>
  In the in-memory backend \<open>U2\<close>, a member of the private office 1 and the owner of the
  public office 2, is offered both.
\<close>

lemma mem_getAvailableOffices_lists_member_office:
  "map (\<lambda>v. (office_id v, isPrivate v))
       (mem_getAvailableOffices (store mem_member_then_owner) ''U2'')
     = [(1, Some True), (2, Some False)]"
  by (simp add: js_defs discord_defs mem_defs scenario_defs)

text \<open>
  Claim C8 (the code departs from it). In the database backend \<open>U2\<close> is a member of
  the private office 1, owned by \<open>U1\<close>, and owns the public office 2, which is the
  office \<open>getUserOffice(U2)\<close> returns. \<open>getAvailableOffices(U2)\<close> is empty: office 2 is
  left out as the user's own office, and office 1, a private office in which \<open>U2\<close>
  holds a membership, is left out because the query selects public offices only.
\<close>

theorem db_getAvailableOffices_omits_member_office:
  "map (\<lambda>x. (office_id x, isPrivate x, ownerId x)) (offices_t (store db_member_then_owner))
     = [(1, Some True, ''U1''), (2, Some False, ''U2'')]
   \<and> db_isOfficeMember (store db_member_then_owner) 1 ''U2''
   \<and> map_option office_id (db_getUserOffice (store db_member_then_owner) ''U2'') = Some 2
   \<and> db_getAvailableOffices (store db_member_then_owner) ''U2'' = []"
  by (simp add: js_defs discord_defs db_defs scenario_defs)

section \<open>The office of a user\<close>

text \<open>The database backend looks for an owned office first, then for a membership.\<close>

lemma db_getUserOffice_owner_first:
  assumes "find (\<lambda>x. ownerId x = uid) (offices_t s) = Some uo"
  shows "db_getUserOffice s uid = db_getOfficeById s (office_id uo)"
  using assms by (simp add: db_getUserOffice_def)

lemma db_getUserOffice_member_second:
  assumes "find (\<lambda>x. ownerId x = uid) (offices_t s) = None"
    and "find (\<lambda>m. userId m = uid) (officeMembers_t s) = Some m"
  shows "db_getUserOffice s uid = db_getOfficeById s (officeId m)"
  using assms by (simp add: db_getUserOffice_def)

lemma db_getUserOffice_none:
  assumes "find (\<lambda>x. ownerId x = uid) (offices_t s) = None"
    and "find (\<lambda>m. userId m = uid) (officeMembers_t s) = None"
  shows "db_getUserOffice s uid = None"
  using assms by (simp add: db_getUserOffice_def)

text \<open>
  Claim C9 (the code departs from it). In the in-memory backend \<open>U2\<close> is a member of
  office 1, owned by \<open>U1\<close>, and owns office 2. \<open>getUserOffice(U2)\<close> returns office 1:
  the first office, in insertion order, that \<open>U2\<close> owns or is a listed member of.
\<close>

theorem mem_getUserOffice_prefers_earlier_membership:
  "map_option (\<lambda>v. (office_id v, ownerId v)) (mem_getUserOffice (store mem_member_then_owner) ''U2'')
     = Some (1, ''U1'')
   \<and> map_option ownerId (mem_getOfficeById (store mem_member_then_owner) 2) = Some ''U2''"
  by (simp add: js_defs discord_defs mem_defs scenario_defs)

section \<open>Adding a member twice\<close>

text \<open>
  Claim C10. In the in-memory backend, \<open>addOfficeMember\<close> for a pair that is already a
  member returns normally (the function has no failing branch); the number of rows and
  the order of the keys are unchanged; the row stored under the pair's key is the new
  one, with the \<open>isOwner\<close> passed, \<open>id = 0\<close> and \<open>joinedAt\<close> the instant of the call; and
  \<open>isOfficeMember\<close> is still true.
\<close>

theorem mem_addOfficeMember_existing_replaces:
  assumes "mem_isOfficeMember (store w) (officeId m) (userId m)"
  shows "length (officeMembers (store (snd (mem_addOfficeMember gw t w m))))
           = length (officeMembers (store w))
       \<and> map fst (officeMembers (store (snd (mem_addOfficeMember gw t w m))))
           = map fst (officeMembers (store w))
       \<and> jsmap_get (officeMembers (store (snd (mem_addOfficeMember gw t w m))))
             (memberKey (officeId m) (userId m))
           = Some \<lparr>officeId = officeId m, userId = userId m, isOwner = isOwner m,
                   member_id = 0, joinedAt = t\<rparr>
       \<and> isOwner (fst (mem_addOfficeMember gw t w m)) = isOwner m
       \<and> joinedAt (fst (mem_addOfficeMember gw t w m)) = t
       \<and> mem_isOfficeMember (store (snd (mem_addOfficeMember gw t w m))) (officeId m) (userId m)"
  using assms
  by (simp add: mem_addOfficeMember_store mem_addOfficeMember_result mem_isOfficeMember_def
      jsmap_set_present jsmap_get_set jsmap_has_set insert_member.defs member.defs)

theorem mem_addOfficeMember_existing_replaces_witness:
  "mem_isOfficeMember (store mem_office1_joined) 1 ''U2''
   \<and> length (officeMembers (store (snd (mem_addOfficeMember gw_up 9 mem_office1_joined
         \<lparr>officeId = 1, userId = ''U2'', isOwner = True\<rparr>)))) = 2
   \<and> jsmap_get (officeMembers (store (snd (mem_addOfficeMember gw_up 9 mem_office1_joined
         \<lparr>officeId = 1, userId = ''U2'', isOwner = True\<rparr>)))) ''1:U2''
       = Some \<lparr>officeId = 1, userId = ''U2'', isOwner = True, member_id = 0, joinedAt = 9\<rparr>
   \<and> jsmap_get (officeMembers (store mem_office1_joined)) ''1:U2''
       = Some \<lparr>officeId = 1, userId = ''U2'', isOwner = False, member_id = 0, joinedAt = 2\<rparr>"
proof -
  have h: "mem_isOfficeMember (store mem_office1_joined)
             (officeId \<lparr>officeId = 1, userId = ''U2'', isOwner = True\<rparr>)
             (userId \<lparr>officeId = 1, userId = ''U2'', isOwner = True\<rparr>)"
    by (simp add: js_defs discord_defs mem_defs scenario_defs)
  have len: "length (officeMembers (store mem_office1_joined)) = 2"
    by (simp add: js_defs discord_defs mem_defs scenario_defs)
  have key: "memberKey 1 ''U2'' = ''1:U2''"
    by (simp add: js_defs mem_defs)
  have old: "jsmap_get (officeMembers (store mem_office1_joined)) ''1:U2''
       = Some \<lparr>officeId = 1, userId = ''U2'', isOwner = False, member_id = 0, joinedAt = 2\<rparr>"
    by (simp add: js_defs discord_defs mem_defs scenario_defs)
  from mem_addOfficeMember_existing_replaces [OF h, of gw_up 9] h len key old
  show ?thesis by simp
qed

end
